theory Spec2Isabelle
  imports Main "HOL-Library.Sublist"
begin

section \<open>Values shared by the three source files\<close>

text \<open>
  A JavaScript value that can be thrown. The code inspects two things of it: the numeric
  \<open>status\<close> property (\<open>error.status === 404\<close>; \<open>None\<close> when the property is
  absent) and its string form \<open>String(error)\<close>.
\<close>

datatype error = Failure (status: "nat option") (toString: string)

text \<open>\<open>new Error(message)\<close>: no status, and \<open>String\<close> of it is \<open>Error: message\<close>.\<close>

definition newError :: "string \<Rightarrow> error" where
  "newError message = Failure None (''Error: '' @ message)"

text \<open>
  A string is the list of its UTF-16 code units, each below 256 (the Latin-1 range), one
  character per code unit. On that range \<open>String.prototype.toLowerCase\<close> adds 32 to
  the capitals \<open>A-Z\<close> (65-90), U+00C0-U+00D6 (192-214) and U+00D8-U+00DE (216-222)
  and leaves every other code unit as it is; the white space that \<open>trim\<close> removes is
  U+0009-U+000D, U+0020 and U+00A0.
\<close>

fun str_includes :: "string \<Rightarrow> string \<Rightarrow> bool" where
  "str_includes [] pat = (pat = [])"
| "str_includes (c # cs) pat = (prefix pat (c # cs) \<or> str_includes cs pat)"

definition isCapital :: "nat \<Rightarrow> bool" where
  "isCapital n = ((65 \<le> n \<and> n \<le> 90) \<or> (192 \<le> n \<and> n \<le> 214) \<or> (216 \<le> n \<and> n \<le> 222))"

definition toLowerCaseChar :: "char \<Rightarrow> char" where
  "toLowerCaseChar c =
     (if isCapital (of_char c) then char_of ((of_char c :: nat) + 32) else c)"

definition toLowerCase :: "string \<Rightarrow> string" where
  "toLowerCase s = map toLowerCaseChar s"

definition substring :: "string \<Rightarrow> nat \<Rightarrow> nat \<Rightarrow> string" where
  "substring s start end = take (end - start) (drop start s)"

definition padStart :: "string \<Rightarrow> nat \<Rightarrow> char \<Rightarrow> string" where
  "padStart s targetLength c = replicate (targetLength - length s) c @ s"

definition digitChar :: "nat \<Rightarrow> char" where
  "digitChar d = char_of (48 + d)"

text \<open>\<open>String(n)\<close> of a non-negative integer: its decimal digits.\<close>

fun numberToString :: "nat \<Rightarrow> string" where
  "numberToString n =
     (if n < 10 then [digitChar n] else numberToString (n div 10) @ [digitChar (n mod 10)])"

declare numberToString.simps [simp del]

definition isWhiteSpace :: "char \<Rightarrow> bool" where
  "isWhiteSpace c = ((of_char c :: nat) \<in> {9, 10, 11, 12, 13, 32, 160})"

definition trim :: "string \<Rightarrow> string" where
  "trim s = rev (dropWhile isWhiteSpace (rev (dropWhile isWhiteSpace s)))"

text \<open>Truthiness of an optional string: \<open>undefined\<close> and the empty string are falsy.\<close>

fun truthy :: "string option \<Rightarrow> bool" where
  "truthy None = False"
| "truthy (Some s) = (s \<noteq> [])"

text \<open>
  The string an optional string stands for where the code uses it as a string: under the
  guard \<open>truthy\<close> it is the string itself, and a falsy value stands for the empty
  string (\<open>x || ""\<close>).
\<close>

fun stringOf :: "string option \<Rightarrow> string" where
  "stringOf None = []"
| "stringOf (Some s) = s"

text \<open>An optional string inside a template literal.\<close>

fun interpolate :: "string option \<Rightarrow> string" where
  "interpolate None = ''undefined''"
| "interpolate (Some s) = s"

subsection \<open>The data the code reads\<close>

record Repository =
  owner :: string
  repo :: string

record Inputs =
  baseBranch :: "string option"
  branch :: "string option"
  branchPrefix :: string
  useCommitSigning :: bool

record ParsedGitHubContext =
  repository :: Repository
  entityNumber :: nat
  isPR :: bool
  inputs :: Inputs

record GitHubPullRequest =
  state :: string
  headRefName :: string
  baseRefName :: string
  commits_totalCount :: nat

text \<open>\<open>contextData\<close> is read only when \<open>isPR\<close> holds, under the cast of the source.\<close>

record FetchDataResult =
  contextData :: GitHubPullRequest

record GitUser =
  login :: string
  id :: nat

record BranchInfo =
  info_baseBranch :: string
  info_claudeBranch :: "string option"
  info_currentBranch :: string

text \<open>The fields of \<open>new Date()\<close> that the code reads, in local time.\<close>

record LocalDate =
  getFullYear :: nat
  getMonth :: nat
  getDate :: nat
  getHours :: nat
  getMinutes :: nat

record ProcessEnv =
  CLAUDE_BRANCH :: "string option"
  GITHUB_RUN_ID :: "string option"
  TRIGGER_USERNAME :: "string option"
  GITHUB_ACTOR :: "string option"
  GITHUB_WORKFLOW :: "string option"

subsection \<open>Effects\<close>

text \<open>
  Every call that leaves the process is recorded, in order: a shell command with its
  argument vector (each interpolation of a \<open>$\<close> template is one argument), a call of the
  hosting API, a credential refresh, a named result of the action. Console output is not
  recorded.
\<close>

datatype event =
    Shell "string list"
  | ReposGetBranch string string string
  | ReposGet string string
  | GitGetRef string string string
  | RefreshGitHubToken
  | ReconfigureGitToken string
  | SetOutput string string
  | SetFailed string
  | ParseGitHubContext

text \<open>
  The collaborators, over a world \<open>'w\<close> that only they change. A rejected promise or a
  thrown value is \<open>Inl\<close>. \<open>dateNow\<close> is \<open>Date.now()\<close> in milliseconds and \<open>newDate\<close> is
  \<open>new Date()\<close>, both read from the world at the moment of the call.
\<close>

record 'w Env =
  dateNow :: "'w \<Rightarrow> int"
  newDate :: "'w \<Rightarrow> LocalDate"
  shell :: "string list \<Rightarrow> 'w \<Rightarrow> (error + string) \<times> 'w"
  repos_getBranch :: "string \<Rightarrow> string \<Rightarrow> string \<Rightarrow> 'w \<Rightarrow> (error + unit) \<times> 'w"
  repos_get :: "string \<Rightarrow> string \<Rightarrow> 'w \<Rightarrow> (error + string) \<times> 'w"
  git_getRef :: "string \<Rightarrow> string \<Rightarrow> string \<Rightarrow> 'w \<Rightarrow> (error + string) \<times> 'w"
  refreshGitHubToken :: "'w \<Rightarrow> (error + string) \<times> 'w"
  reconfigureGitToken :: "string \<Rightarrow> ParsedGitHubContext \<Rightarrow> 'w \<Rightarrow> (error + unit) \<times> 'w"
  parseGitHubContext :: "'w \<Rightarrow> (error + ParsedGitHubContext) \<times> 'w"

text \<open>
  The state of one run: the world, the calls made so far, and the cell
  \<open>lastRefreshTime.value\<close> that every call of the retry wrapper shares.
\<close>

record 'w run_state =
  world :: 'w
  trace :: "event list"
  lastRefreshTime :: int

text \<open>How an asynchronous function ends: it returns, it throws, or the process exits.\<close>

datatype 'a outcome = Returned 'a | Thrown error | Exited nat

type_synonym ('w, 'a) action = "'w run_state \<Rightarrow> 'a outcome \<times> 'w run_state"

definition returns :: "'a \<Rightarrow> ('w, 'a) action" where
  "returns v s = (Returned v, s)"

definition throws :: "error \<Rightarrow> ('w, 'a) action" where
  "throws e s = (Thrown e, s)"

definition processExit :: "nat \<Rightarrow> ('w, 'a) action" where
  "processExit code s = (Exited code, s)"

definition andThen :: "('w, 'a) action \<Rightarrow> ('a \<Rightarrow> ('w, 'b) action) \<Rightarrow> ('w, 'b) action" where
  "andThen m f s =
     (case m s of
        (Returned v, s') \<Rightarrow> f v s'
      | (Thrown e, s') \<Rightarrow> (Thrown e, s')
      | (Exited code, s') \<Rightarrow> (Exited code, s'))"

definition tryCatch :: "('w, 'a) action \<Rightarrow> (error \<Rightarrow> ('w, 'a) action) \<Rightarrow> ('w, 'a) action" where
  "tryCatch m handler s =
     (case m s of
        (Returned v, s') \<Rightarrow> (Returned v, s')
      | (Thrown e, s') \<Rightarrow> handler e s'
      | (Exited code, s') \<Rightarrow> (Exited code, s'))"

definition external :: "event \<Rightarrow> ('w \<Rightarrow> (error + 'a) \<times> 'w) \<Rightarrow> ('w, 'a) action" where
  "external ev f s =
     (case f (world s) of
        (Inl e, w') \<Rightarrow> (Thrown e, s\<lparr>world := w', trace := trace s @ [ev]\<rparr>)
      | (Inr v, w') \<Rightarrow> (Returned v, s\<lparr>world := w', trace := trace s @ [ev]\<rparr>))"

definition emit :: "event \<Rightarrow> ('w, unit) action" where
  "emit ev s = (Returned (), s\<lparr>trace := trace s @ [ev]\<rparr>)"

definition sh :: "'w Env \<Rightarrow> string list \<Rightarrow> ('w, string) action" where
  "sh env argv = external (Shell argv) (shell env argv)"

definition core_setOutput :: "string \<Rightarrow> string \<Rightarrow> ('w, unit) action" where
  "core_setOutput name v = emit (SetOutput name v)"

definition core_setFailed :: "string \<Rightarrow> ('w, unit) action" where
  "core_setFailed message = emit (SetFailed message)"

section \<open>token-refresh.ts\<close>

definition refreshTokenAndReconfigureGit ::
  "'w Env \<Rightarrow> ParsedGitHubContext \<Rightarrow> GitUser option \<Rightarrow> ('w, string) action" where
  "refreshTokenAndReconfigureGit env context user =
     tryCatch
       (andThen (external RefreshGitHubToken (refreshGitHubToken env)) (\<lambda>freshToken.
        andThen (external (ReconfigureGitToken freshToken)
                   (reconfigureGitToken env freshToken context)) (\<lambda>_.
        returns freshToken)))
       (\<lambda>error. throws (newError (''Token refresh failed: '' @ toString error)))"

text \<open>\<open>now\<close> is the value \<open>Date.now()\<close> has when the function reads it.\<close>

definition shouldRefreshToken :: "int \<Rightarrow> int \<Rightarrow> bool" where
  "shouldRefreshToken now lastRefresh =
     (let REFRESH_THRESHOLD_MS = 45 * 60 * 1000;
          elapsed = now - lastRefresh
      in elapsed \<ge> REFRESH_THRESHOLD_MS)"

text \<open>\<open>new Date()\<close> and \<open>lastRefreshTime.value = Date.now()\<close>\<close>

definition readNewDate :: "'w Env \<Rightarrow> ('w, LocalDate) action" where
  "readNewDate env s = (Returned (newDate env (world s)), s)"

definition setLastRefreshTime :: "'w Env \<Rightarrow> ('w, unit) action" where
  "setLastRefreshTime env s = (Returned (), s\<lparr>lastRefreshTime := dateNow env (world s)\<rparr>)"

text \<open>Lines 287-290 of \<open>withTokenRefresh\<close>: the check before the operation.\<close>

definition preflightRefresh ::
  "'w Env \<Rightarrow> ParsedGitHubContext \<Rightarrow> GitUser option \<Rightarrow> ('w, unit) action" where
  "preflightRefresh env context user s =
     (if shouldRefreshToken (dateNow env (world s)) (lastRefreshTime s)
      then andThen (refreshTokenAndReconfigureGit env context user)
             (\<lambda>_. setLastRefreshTime env) s
      else returns () s)"

definition withTokenRefresh ::
  "'w Env \<Rightarrow> ('w, 'a) action \<Rightarrow> ParsedGitHubContext \<Rightarrow> GitUser option \<Rightarrow> ('w, 'a) action" where
  "withTokenRefresh env operation context user =
     andThen (preflightRefresh env context user)
       (\<lambda>_. tryCatch operation (\<lambda>error.
          let errorMessage = toString error in
          if str_includes errorMessage ''authentication''
             \<or> str_includes errorMessage ''401''
             \<or> str_includes errorMessage ''403''
             \<or> str_includes errorMessage ''token''
          then tryCatch
                 (andThen (refreshTokenAndReconfigureGit env context user) (\<lambda>_.
                  andThen (setLastRefreshTime env) (\<lambda>_.
                  operation)))
                 (\<lambda>retryError. throws retryError)
          else throws error))"

section \<open>branch.ts\<close>

text \<open>Line 157: the local time as year, month, day, a hyphen, hours, minutes.\<close>

definition timestamp :: "LocalDate \<Rightarrow> string" where
  "timestamp now =
     numberToString (getFullYear now)
     @ padStart (numberToString (getMonth now + 1)) 2 (CHR ''0'')
     @ padStart (numberToString (getDate now)) 2 (CHR ''0'')
     @ ''-''
     @ padStart (numberToString (getHours now)) 2 (CHR ''0'')
     @ padStart (numberToString (getMinutes now)) 2 (CHR ''0'')"

text \<open>Lines 153 and 164-165: the name of the branch to create.\<close>

definition entityType :: "bool \<Rightarrow> string" where
  "entityType pr = (if pr then ''pr'' else ''issue'')"

definition branchName :: "string \<Rightarrow> string \<Rightarrow> nat \<Rightarrow> string \<Rightarrow> string" where
  "branchName pfx etype number stamp =
     pfx @ etype @ ''-'' @ numberToString number @ ''-'' @ stamp"

definition newBranch :: "string \<Rightarrow> bool \<Rightarrow> nat \<Rightarrow> LocalDate \<Rightarrow> string" where
  "newBranch pfx pr number now =
     substring (toLowerCase (branchName pfx (entityType pr) number (timestamp now))) 0 50"

text \<open>Line 110.\<close>

definition fetchDepth :: "nat \<Rightarrow> nat" where
  "fetchDepth commitCount = max commitCount 20"

text \<open>Lines 36-90: a branch is provided.\<close>

definition useProvidedBranch ::
  "'w Env \<Rightarrow> ParsedGitHubContext \<Rightarrow> string \<Rightarrow> ('w, BranchInfo) action" where
  "useProvidedBranch env context b =
     (let own = owner (repository context); rep = repo (repository context) in
      andThen
        (tryCatch
           (andThen (external (ReposGetBranch own rep b) (repos_getBranch env own rep b))
              (\<lambda>_. returns ()))
           (\<lambda>error.
              if status error = Some 404
              then throws (newError (''Specified branch '' @ [CHR 0x27] @ b @ [CHR 0x27]
                                     @ '' does not exist in the repository''))
              else throws error)) (\<lambda>_.
      andThen (withTokenRefresh env (sh env [''git'', ''fetch'', ''origin'', b]) context None) (\<lambda>_.
      andThen (sh env [''git'', ''checkout'', b]) (\<lambda>_.
      andThen
        (if truthy (baseBranch (inputs context))
         then returns (stringOf (baseBranch (inputs context)))
         else external (ReposGet own rep) (repos_get env own rep)) (\<lambda>detectedBaseBranch.
      andThen (core_setOutput ''CLAUDE_BRANCH'' b) (\<lambda>_.
      andThen (core_setOutput ''BASE_BRANCH'' detectedBaseBranch) (\<lambda>_.
      returns \<lparr>info_baseBranch = detectedBaseBranch,
               info_claudeBranch = Some b,
               info_currentBranch = b\<rparr>)))))))"

text \<open>Lines 103-133: an open pull request.\<close>

definition checkoutPRBranch ::
  "'w Env \<Rightarrow> GitHubPullRequest \<Rightarrow> ParsedGitHubContext \<Rightarrow> ('w, BranchInfo) action" where
  "checkoutPRBranch env prData context =
     (let headBranch = headRefName prData;
          commitCount = commits_totalCount prData;
          depth = fetchDepth commitCount
      in
      andThen
        (withTokenRefresh env
           (sh env [''git'', ''fetch'', ''origin'', ''--depth='' @ numberToString depth, headBranch])
           context None) (\<lambda>_.
      andThen (sh env [''git'', ''checkout'', headBranch]) (\<lambda>_.
      returns \<lparr>info_baseBranch = baseRefName prData,
               info_claudeBranch = None,
               info_currentBranch = headBranch\<rparr>)))"

text \<open>Lines 137-225: an issue, or a closed or merged pull request.\<close>

definition createNewBranch :: "'w Env \<Rightarrow> ParsedGitHubContext \<Rightarrow> ('w, BranchInfo) action" where
  "createNewBranch env context =
     (let own = owner (repository context); rep = repo (repository context) in
      andThen
        (if truthy (baseBranch (inputs context))
         then returns (stringOf (baseBranch (inputs context)))
         else external (ReposGet own rep) (repos_get env own rep)) (\<lambda>sourceBranch.
      andThen (readNewDate env) (\<lambda>now.
      let created = newBranch (branchPrefix (inputs context)) (isPR context)
                      (entityNumber context) now
      in
      tryCatch
        (andThen
           (external (GitGetRef own rep (''heads/'' @ sourceBranch))
              (git_getRef env own rep (''heads/'' @ sourceBranch))) (\<lambda>currentSHA.
         if useCommitSigning (inputs context)
         then
           andThen (core_setOutput ''CLAUDE_BRANCH'' created) (\<lambda>_.
           andThen (core_setOutput ''BASE_BRANCH'' sourceBranch) (\<lambda>_.
           returns \<lparr>info_baseBranch = sourceBranch,
                    info_claudeBranch = Some created,
                    info_currentBranch = sourceBranch\<rparr>))
         else
           andThen (sh env [''git'', ''checkout'', ''-b'', created]) (\<lambda>_.
           andThen (withTokenRefresh env (sh env [''git'', ''push'', ''-u'', ''origin'', created])
                      context None) (\<lambda>_.
           andThen (core_setOutput ''CLAUDE_BRANCH'' created) (\<lambda>_.
           andThen (core_setOutput ''BASE_BRANCH'' sourceBranch) (\<lambda>_.
           returns \<lparr>info_baseBranch = sourceBranch,
                    info_claudeBranch = Some created,
                    info_currentBranch = created\<rparr>))))))
        (\<lambda>error. processExit 1))))"

text \<open>
  \<open>setupBranch\<close> starts from the world it is called in, with a fresh cell holding
  \<open>Date.now()\<close>, and takes the first of the three blocks whose guard holds.
\<close>

definition setupBranch ::
  "'w Env \<Rightarrow> FetchDataResult \<Rightarrow> ParsedGitHubContext \<Rightarrow> 'w
     \<Rightarrow> BranchInfo outcome \<times> 'w run_state" where
  "setupBranch env githubData context w =
     (let s0 = \<lparr>world = w, trace = [], lastRefreshTime = dateNow env w\<rparr>;
          prData = contextData githubData;
          prState = state prData
      in
      if truthy (branch (inputs context))
      then useProvidedBranch env context (stringOf (branch (inputs context))) s0
      else if isPR context \<and> \<not> (prState = ''CLOSED'' \<or> prState = ''MERGED'')
      then checkoutPRBranch env prData context s0
      else createNewBranch env context s0)"

section \<open>The commit-and-push entry point\<close>

definition commitMessage :: "ProcessEnv \<Rightarrow> string \<Rightarrow> string" where
  "commitMessage penv triggeredBy =
     ''Claude Code: Automated changes from workflow run '' @ interpolate (GITHUB_RUN_ID penv)
     @ [CHR 0x0A, CHR 0x0A]
     @ ''Changes made by Claude Code action in response to trigger.''
     @ [CHR 0x0A, CHR 0x0A]
     @ ''Workflow: '' @ interpolate (GITHUB_WORKFLOW penv) @ [CHR 0x0A]
     @ ''Run ID: '' @ interpolate (GITHUB_RUN_ID penv) @ [CHR 0x0A]
     @ ''Triggered by: '' @ triggeredBy"

definition run :: "'w Env \<Rightarrow> ProcessEnv \<Rightarrow> 'w \<Rightarrow> unit outcome \<times> 'w run_state" where
  "run env penv w =
     tryCatch
       (andThen (external ParseGitHubContext (parseGitHubContext env)) (\<lambda>context.
        let claudeBranch = CLAUDE_BRANCH penv;
            triggeredBy =
              (if truthy (TRIGGER_USERNAME penv) then stringOf (TRIGGER_USERNAME penv)
               else if truthy (GITHUB_ACTOR penv) then stringOf (GITHUB_ACTOR penv)
               else [])
        in
        andThen (setLastRefreshTime env) (\<lambda>_.
        andThen (sh env [''git'', ''config'', ''--global'', ''user.name'',
                         ''claude-code-action[bot]'']) (\<lambda>_.
        andThen (sh env [''git'', ''config'', ''--global'', ''user.email'',
                         ''claude-code-action[bot]@users.noreply.github.com'']) (\<lambda>_.
        andThen (sh env [''git'', ''status'', ''--porcelain'']) (\<lambda>gitStatus.
        let hasChanges = (length (trim gitStatus) > 0) in
        if \<not> hasChanges
        then andThen (core_setOutput ''committed'' ''false'') (\<lambda>_. returns ())
        else
          andThen (sh env [''git'', ''add'', ''.'']) (\<lambda>_.
          andThen (sh env [''git'', ''commit'', ''-m'', commitMessage penv triggeredBy]) (\<lambda>_.
          andThen
            (if truthy claudeBranch
             then withTokenRefresh env (sh env [''git'', ''push'', ''origin'', stringOf claudeBranch])
                    context None
             else withTokenRefresh env (sh env [''git'', ''push'', ''origin'', ''HEAD''])
                    context None) (\<lambda>_.
          core_setOutput ''committed'' ''true'')))))))))
       (\<lambda>error.
          andThen (core_setFailed (''Failed to commit and push changes: '' @ toString error))
            (\<lambda>_. processExit 1))
       \<lparr>world = w, trace = [], lastRefreshTime = 0\<rparr>"

section \<open>Specification vocabulary and a scripted environment\<close>

text \<open>The failure signature of section 4.3: the four substrings the wrapper looks for.\<close>

definition authenticationShaped :: "string \<Rightarrow> bool" where
  "authenticationShaped message =
     (str_includes message ''authentication'' \<or> str_includes message ''401''
      \<or> str_includes message ''403'' \<or> str_includes message ''token'')"

fun isSetOutput :: "event \<Rightarrow> bool" where
  "isSetOutput (SetOutput name v) = True"
| "isSetOutput ev = False"

fun isShell :: "event \<Rightarrow> bool" where
  "isShell (Shell argv) = True"
| "isShell ev = False"

text \<open>A character is upper-case when it is a capital, that is, when lower-casing changes it.\<close>

definition isUpperCase :: "char \<Rightarrow> bool" where
  "isUpperCase c = isCapital (of_char c)"

text \<open>
  An environment for running the model on concrete inputs. Its world is the number of
  calls made so far; the clock advances by one second per call, and the local date is
  15 March 2024, 14:30. The answers of the shell and of the token issuer may depend on
  the command and on the world; the three lookups answer as given.
\<close>

definition scriptedContext :: "bool \<Rightarrow> string option \<Rightarrow> string option \<Rightarrow> string \<Rightarrow> bool
    \<Rightarrow> ParsedGitHubContext" where
  "scriptedContext pr explicitBranch explicitBase pfx signing =
     \<lparr>repository = \<lparr>owner = ''acme'', repo = ''widgets''\<rparr>,
      entityNumber = 42,
      isPR = pr,
      inputs = \<lparr>baseBranch = explicitBase, branch = explicitBranch,
                branchPrefix = pfx, useCommitSigning = signing\<rparr>\<rparr>"

definition scriptedEnv ::
  "(string list \<Rightarrow> nat \<Rightarrow> error + string) \<Rightarrow> (error + unit) \<Rightarrow> (error + string)
     \<Rightarrow> (error + string) \<Rightarrow> (nat \<Rightarrow> error + string) \<Rightarrow> nat Env" where
  "scriptedEnv shellAnswer branchAnswer repoAnswer refAnswer tokenAnswer =
     \<lparr>dateNow = (\<lambda>w. int w * 1000),
      newDate = (\<lambda>w. \<lparr>getFullYear = 2024, getMonth = 2, getDate = 15,
                       getHours = 14, getMinutes = 30\<rparr>),
      shell = (\<lambda>argv w. (shellAnswer argv w, Suc w)),
      repos_getBranch = (\<lambda>own rep b w. (branchAnswer, Suc w)),
      repos_get = (\<lambda>own rep w. (repoAnswer, Suc w)),
      git_getRef = (\<lambda>own rep ref w. (refAnswer, Suc w)),
      refreshGitHubToken = (\<lambda>w. (tokenAnswer w, Suc w)),
      reconfigureGitToken = (\<lambda>token context w. (Inr (), Suc w)),
      parseGitHubContext =
        (\<lambda>w. (Inr (scriptedContext False None None ''claude-'' False), Suc w))\<rparr>"

definition openPullRequest :: "nat \<Rightarrow> FetchDataResult" where
  "openPullRequest n =
     \<lparr>contextData = \<lparr>state = ''OPEN'', headRefName = ''feature'', baseRefName = ''main'',
                     commits_totalCount = n\<rparr>\<rparr>"

definition closedPullRequest :: FetchDataResult where
  "closedPullRequest =
     \<lparr>contextData = \<lparr>state = ''CLOSED'', headRefName = ''feature'', baseRefName = ''main'',
                     commits_totalCount = 3\<rparr>\<rparr>"

text \<open>A shell that fails once, at world 0, with the given message, and succeeds afterwards.\<close>

definition failsFirst :: "string \<Rightarrow> string list \<Rightarrow> nat \<Rightarrow> error + string" where
  "failsFirst message argv w = (if w = 0 then Inl (Failure None message) else Inr ''done'')"

definition alwaysSucceeds :: "string list \<Rightarrow> nat \<Rightarrow> error + string" where
  "alwaysSucceeds argv w = Inr ''done''"

text \<open>
  Trace discipline: an action appends only events of the set \<open>P\<close> to the trace,
  whatever its outcome.
\<close>

definition appendsOnly :: "event set \<Rightarrow> ('w, 'a) action \<Rightarrow> bool" where
  "appendsOnly P m = (\<forall>s r s'. m s = (r, s') \<longrightarrow> (\<exists>tr. trace s' = trace s @ tr \<and> set tr \<subseteq> P))"

definition refreshEvents :: "event set" where
  "refreshEvents = insert RefreshGitHubToken (range ReconfigureGitToken)"

subsection \<open>Concrete runs\<close>

definition pushHead :: "string list" where
  "pushHead = [''git'', ''push'', ''origin'', ''HEAD'']"

definition freshStart :: "nat run_state" where
  "freshStart = \<lparr>world = 0, trace = [], lastRefreshTime = 0\<rparr>"

definition staleStart :: "nat run_state" where
  "staleStart = \<lparr>world = 0, trace = [], lastRefreshTime = - 2700000\<rparr>"

definition alwaysFails :: "string \<Rightarrow> string list \<Rightarrow> nat \<Rightarrow> error + string" where
  "alwaysFails message argv w = Inl (Failure None message)"

definition issuesToken :: "nat \<Rightarrow> error + string" where
  "issuesToken w = Inr ''tok''"

definition issuerDown :: "nat \<Rightarrow> error + string" where
  "issuerDown w = Inl (Failure None ''issuer unavailable'')"

definition notFound :: error where
  "notFound = Failure (Some 404) ''HttpError: Not Found''"

definition retryEnv :: "string \<Rightarrow> (nat \<Rightarrow> error + string) \<Rightarrow> nat Env" where
  "retryEnv message tokenAnswer =
     scriptedEnv (failsFirst message) (Inr ()) (Inr ''main'') (Inr ''abc123'') tokenAnswer"

definition failingEnv :: "string \<Rightarrow> nat Env" where
  "failingEnv message =
     scriptedEnv (alwaysFails message) (Inr ()) (Inr ''main'') (Inr ''abc123'') issuesToken"

definition lookupEnv :: "(error + unit) \<Rightarrow> (error + string) \<Rightarrow> nat Env" where
  "lookupEnv branchAnswer refAnswer =
     scriptedEnv alwaysSucceeds branchAnswer (Inr ''main'') refAnswer issuesToken"

definition cleanTreeShell :: "string list \<Rightarrow> nat \<Rightarrow> error + string" where
  "cleanTreeShell argv w =
     Inr (if argv = [''git'', ''status'', ''--porcelain''] then [CHR 0x0A] else ''done'')"

definition cleanTreeEnv :: "nat Env" where
  "cleanTreeEnv = scriptedEnv cleanTreeShell (Inr ()) (Inr ''main'') (Inr ''abc123'') issuesToken"

definition march15 :: LocalDate where
  "march15 = \<lparr>getFullYear = 2024, getMonth = 2, getDate = 15, getHours = 14, getMinutes = 30\<rparr>"

definition runnerEnv :: ProcessEnv where
  "runnerEnv = \<lparr>CLAUDE_BRANCH = None, GITHUB_RUN_ID = Some ''7'', TRIGGER_USERNAME = None,
                 GITHUB_ACTOR = Some ''octocat'', GITHUB_WORKFLOW = Some ''agent''\<rparr>"

section \<open>Reasoning about actions\<close>

lemmas action_defs = returns_def throws_def processExit_def andThen_def tryCatch_def
  external_def emit_def sh_def core_setOutput_def core_setFailed_def setLastRefreshTime_def
  readNewDate_def

lemma andThen_Returned:
  assumes "andThen m f s = (Returned r, s')"
  obtains v s1 where "m s = (Returned v, s1)" and "f v s1 = (Returned r, s')"
  using assms by (auto simp: andThen_def split: prod.splits outcome.splits)

lemma tryCatch_Returned:
  assumes "tryCatch m h s = (Returned v, s')"
  shows "m s = (Returned v, s') \<or> (\<exists>e s1. m s = (Thrown e, s1) \<and> h e s1 = (Returned v, s'))"
  using assms by (auto simp: tryCatch_def split: prod.splits outcome.splits)

lemma throws_not_Returned: "throws e s \<noteq> (Returned v, s')"
  by (simp add: throws_def)

lemma processExit_not_Returned: "processExit n s \<noteq> (Returned v, s')"
  by (simp add: processExit_def)

lemma returns_run:
  assumes "returns v s = (Returned v', s')"
  shows "v' = v \<and> s' = s"
  using assms by (auto simp: returns_def)

lemma external_Returned:
  assumes "external ev f s = (Returned v, s')"
  shows "trace s' = trace s @ [ev]"
  using assms by (auto simp: external_def split: prod.splits sum.splits)

lemma external_fails:
  assumes "f (world s1) = (Inl e, w2)"
  shows "external ev f s1 = (Thrown e, s1\<lparr>world := w2, trace := trace s1 @ [ev]\<rparr>)"
  using assms by (simp add: external_def)

lemma setOutput_run:
  assumes "core_setOutput name v s = (r, s')"
  shows "trace s' = trace s @ [SetOutput name v]"
  using assms by (auto simp: core_setOutput_def emit_def)

subsection \<open>What an action may append to the trace\<close>

lemma appendsOnlyD:
  "appendsOnly P m \<Longrightarrow> m s = (r, s') \<Longrightarrow> \<exists>tr. trace s' = trace s @ tr \<and> set tr \<subseteq> P"
  by (simp add: appendsOnly_def)

lemma appendsOnly_returns: "appendsOnly P (returns v)"
  by (simp add: appendsOnly_def returns_def)

lemma appendsOnly_throws: "appendsOnly P (throws e)"
  by (simp add: appendsOnly_def throws_def)

lemma appendsOnly_processExit: "appendsOnly P (processExit n)"
  by (simp add: appendsOnly_def processExit_def)

lemma appendsOnly_setLastRefreshTime: "appendsOnly P (setLastRefreshTime env)"
  by (simp add: appendsOnly_def setLastRefreshTime_def)

lemma appendsOnly_readNewDate: "appendsOnly P (readNewDate env)"
  by (simp add: appendsOnly_def readNewDate_def)

lemma appendsOnly_external: "ev \<in> P \<Longrightarrow> appendsOnly P (external ev f)"
  by (auto simp: appendsOnly_def external_def split: prod.splits sum.splits)

lemma appendsOnly_emit: "ev \<in> P \<Longrightarrow> appendsOnly P (emit ev)"
  by (auto simp: appendsOnly_def emit_def)

lemma appendsOnly_sh: "Shell argv \<in> P \<Longrightarrow> appendsOnly P (sh env argv)"
  by (simp add: sh_def appendsOnly_external)

lemma appendsOnly_setOutput: "SetOutput name v \<in> P \<Longrightarrow> appendsOnly P (core_setOutput name v)"
  by (simp add: core_setOutput_def appendsOnly_emit)

lemma appendsOnly_setFailed: "SetFailed msg \<in> P \<Longrightarrow> appendsOnly P (core_setFailed msg)"
  by (simp add: core_setFailed_def appendsOnly_emit)

lemma appendsOnly_andThen:
  assumes m: "appendsOnly P m" and f: "\<And>v. appendsOnly P (f v)"
  shows "appendsOnly P (andThen m f)"
  unfolding appendsOnly_def
proof (intro allI impI)
  fix s r s'
  assume run: "andThen m f s = (r, s')"
  obtain r1 s1 where ms: "m s = (r1, s1)" by (cases "m s")
  from appendsOnlyD [OF m ms] obtain tr1 where t1: "trace s1 = trace s @ tr1" "set tr1 \<subseteq> P"
    by blast
  show "\<exists>tr. trace s' = trace s @ tr \<and> set tr \<subseteq> P"
  proof (cases r1)
    case (Returned v)
    with run ms have "f v s1 = (r, s')" by (simp add: andThen_def)
    from appendsOnlyD [OF f this] obtain tr2 where "trace s' = trace s1 @ tr2" "set tr2 \<subseteq> P"
      by blast
    with t1 have "trace s' = trace s @ (tr1 @ tr2) \<and> set (tr1 @ tr2) \<subseteq> P" by simp
    then show ?thesis by blast
  next
    case (Thrown e)
    with run ms have "s' = s1" by (simp add: andThen_def)
    with t1 show ?thesis by blast
  next
    case (Exited n)
    with run ms have "s' = s1" by (simp add: andThen_def)
    with t1 show ?thesis by blast
  qed
qed

lemma appendsOnly_tryCatch:
  assumes m: "appendsOnly P m" and h: "\<And>e. appendsOnly P (h e)"
  shows "appendsOnly P (tryCatch m h)"
  unfolding appendsOnly_def
proof (intro allI impI)
  fix s r s'
  assume run: "tryCatch m h s = (r, s')"
  obtain r1 s1 where ms: "m s = (r1, s1)" by (cases "m s")
  from appendsOnlyD [OF m ms] obtain tr1 where t1: "trace s1 = trace s @ tr1" "set tr1 \<subseteq> P"
    by blast
  show "\<exists>tr. trace s' = trace s @ tr \<and> set tr \<subseteq> P"
  proof (cases r1)
    case (Thrown e)
    with run ms have "h e s1 = (r, s')" by (simp add: tryCatch_def)
    from appendsOnlyD [OF h this] obtain tr2 where "trace s' = trace s1 @ tr2" "set tr2 \<subseteq> P"
      by blast
    with t1 have "trace s' = trace s @ (tr1 @ tr2) \<and> set (tr1 @ tr2) \<subseteq> P" by simp
    then show ?thesis by blast
  next
    case (Returned v)
    with run ms have "s' = s1" by (simp add: tryCatch_def)
    with t1 show ?thesis by blast
  next
    case (Exited n)
    with run ms have "s' = s1" by (simp add: tryCatch_def)
    with t1 show ?thesis by blast
  qed
qed

lemma appendsOnly_if:
  "appendsOnly P m \<Longrightarrow> appendsOnly P n \<Longrightarrow> appendsOnly P (if c then m else n)"
  by simp

lemmas appendsOnly_intros = appendsOnly_returns appendsOnly_throws appendsOnly_processExit
  appendsOnly_setLastRefreshTime appendsOnly_readNewDate appendsOnly_external appendsOnly_emit appendsOnly_sh
  appendsOnly_setOutput appendsOnly_setFailed appendsOnly_andThen appendsOnly_tryCatch
  appendsOnly_if

lemma appendsOnly_refresh:
  "refreshEvents \<subseteq> P \<Longrightarrow> appendsOnly P (refreshTokenAndReconfigureGit env context user)"
  unfolding refreshTokenAndReconfigureGit_def
  by (intro appendsOnly_intros) (auto simp: refreshEvents_def)

lemma appendsOnly_preflight:
  assumes "refreshEvents \<subseteq> P"
  shows "appendsOnly P (preflightRefresh env context user)"
proof -
  have a: "appendsOnly P (andThen (refreshTokenAndReconfigureGit env context user)
             (\<lambda>_. setLastRefreshTime env))"
    by (intro appendsOnly_intros appendsOnly_refresh assms)
  have b: "appendsOnly P (returns () :: ('a, unit) action)"
    by (rule appendsOnly_returns)
  show ?thesis
    unfolding appendsOnly_def preflightRefresh_def
    using a b by (auto simp: appendsOnly_def)
qed

lemma appendsOnly_withTokenRefresh:
  assumes "refreshEvents \<subseteq> P" and "appendsOnly P operation"
  shows "appendsOnly P (withTokenRefresh env operation context user)"
  unfolding withTokenRefresh_def Let_def
  by (intro appendsOnly_intros appendsOnly_preflight appendsOnly_refresh assms)

lemma appendsOnly_checkoutPRBranch:
  assumes "refreshEvents \<subseteq> P"
      and "Shell [''git'', ''fetch'', ''origin'',
                  ''--depth='' @ numberToString (fetchDepth (commits_totalCount prData)),
                  headRefName prData] \<in> P"
      and "Shell [''git'', ''checkout'', headRefName prData] \<in> P"
  shows "appendsOnly P (checkoutPRBranch env prData context)"
  unfolding checkoutPRBranch_def Let_def
  by (intro appendsOnly_intros appendsOnly_withTokenRefresh assms)

lemma appendsOnly_createNewBranch_signing:
  assumes "useCommitSigning (inputs context)"
  shows "appendsOnly {ev. \<not> isShell ev} (createNewBranch env context)"
  unfolding createNewBranch_def Let_def
  using assms by (simp only: if_True) (intro appendsOnly_intros; simp)

lemma outputs_preserved:
  assumes "appendsOnly {ev. \<not> isSetOutput ev} m" and "m s = (r, s')"
  shows "filter isSetOutput (trace s') = filter isSetOutput (trace s)"
proof -
  from appendsOnlyD [OF assms] obtain tr where
    "trace s' = trace s @ tr" and "set tr \<subseteq> {ev. \<not> isSetOutput ev}" by blast
  moreover from this(2) have "filter isSetOutput tr = []"
    by (auto simp: filter_empty_conv)
  ultimately show ?thesis by simp
qed

lemma refreshEvents_not_outputs: "refreshEvents \<subseteq> {ev. \<not> isSetOutput ev}"
  by (auto simp: refreshEvents_def)

lemma fetch_keeps_outputs:
  assumes "withTokenRefresh env (sh env argv) context user s = (r, s')"
  shows "filter isSetOutput (trace s') = filter isSetOutput (trace s)"
proof -
  have "appendsOnly {ev. \<not> isSetOutput ev} (withTokenRefresh env (sh env argv) context user)"
    by (intro appendsOnly_withTokenRefresh refreshEvents_not_outputs appendsOnly_sh) simp
  from outputs_preserved [OF this assms] show ?thesis .
qed

lemma sh_keeps_outputs:
  assumes "sh env argv s = (r, s')"
  shows "filter isSetOutput (trace s') = filter isSetOutput (trace s)"
proof -
  have "appendsOnly {ev. \<not> isSetOutput ev} (sh env argv)"
    by (intro appendsOnly_sh) simp
  from outputs_preserved [OF this assms] show ?thesis .
qed

section \<open>The freshness threshold\<close>

text \<open>
  Claim C6. \<open>shouldRefreshToken\<close> depends only on the clock reading and the stored time, and is
  true exactly when the elapsed time is at least 45 minutes (2700000 ms): false at 44
  minutes, true at 45 minutes.
\<close>

theorem shouldRefreshToken_threshold:
  "shouldRefreshToken now lastRefresh = (now - lastRefresh \<ge> 45 * 60000)
   \<and> \<not> shouldRefreshToken (lastRefresh + 44 * 60000) lastRefresh
   \<and> shouldRefreshToken (lastRefresh + 45 * 60000) lastRefresh"
  by (simp add: shouldRefreshToken_def)

section \<open>The retry wrapper\<close>

lemma refresh_outcomes:
  assumes "refreshTokenAndReconfigureGit env context user s = (r, s')"
  shows "(\<exists>tok. r = Returned tok \<and> trace s' = trace s @ [RefreshGitHubToken, ReconfigureGitToken tok])
       \<or> (\<exists>e. r = Thrown e \<and> trace s' = trace s @ [RefreshGitHubToken])
       \<or> (\<exists>e tok. r = Thrown e \<and> trace s' = trace s @ [RefreshGitHubToken, ReconfigureGitToken tok])"
  using assms
  by (auto simp: refreshTokenAndReconfigureGit_def action_defs split: prod.splits sum.splits)

lemma refresh_cell:
  assumes "refreshTokenAndReconfigureGit env context user s = (r, s')"
  shows "lastRefreshTime s' = lastRefreshTime s"
  using assms
  by (auto simp: refreshTokenAndReconfigureGit_def action_defs split: prod.splits sum.splits)

lemma withTokenRefresh_unfold:
  assumes "preflightRefresh env context user s = (Returned (), s1)"
  shows "withTokenRefresh env operation context user s =
     tryCatch operation (\<lambda>error.
          if authenticationShaped (toString error)
          then tryCatch
                 (andThen (refreshTokenAndReconfigureGit env context user) (\<lambda>_.
                  andThen (setLastRefreshTime env) (\<lambda>_.
                  operation)))
                 (\<lambda>retryError. throws retryError)
          else throws error) s1"
  using assms by (simp add: withTokenRefresh_def andThen_def authenticationShaped_def Let_def)

lemma preflight_not_due:
  assumes "\<not> shouldRefreshToken (dateNow env (world s)) (lastRefreshTime s)"
  shows "preflightRefresh env context user s = (Returned (), s)"
  using assms by (simp add: preflightRefresh_def returns_def)

lemma withTokenRefresh_retry:
  assumes pre: "preflightRefresh env ctx user s = (Returned (), s1)"
      and fail: "operation s1 = (Thrown e, s2)"
      and auth: "authenticationShaped (toString e)"
      and r: "refreshTokenAndReconfigureGit env ctx user s2 = (Returned tok, s3)"
  shows "withTokenRefresh env operation ctx user s
           = operation (s3\<lparr>lastRefreshTime := dateNow env (world s3)\<rparr>)"
  unfolding withTokenRefresh_unfold [OF pre]
  using fail auth r
  by (simp add: tryCatch_def andThen_def setLastRefreshTime_def throws_def
        split: prod.splits outcome.splits)

lemma withTokenRefresh_refresh_fails:
  assumes pre: "preflightRefresh env ctx user s = (Returned (), s1)"
      and fail: "operation s1 = (Thrown e, s2)"
      and auth: "authenticationShaped (toString e)"
      and r: "refreshTokenAndReconfigureGit env ctx user s2 = (Thrown e', s3)"
  shows "withTokenRefresh env operation ctx user s = (Thrown e', s3)"
  unfolding withTokenRefresh_unfold [OF pre]
  using fail auth r
  by (simp add: tryCatch_def andThen_def throws_def)

lemma withTokenRefresh_no_retry:
  assumes pre: "preflightRefresh env ctx user s = (Returned (), s1)"
      and fail: "operation s1 = (Thrown e, s2)"
      and auth: "\<not> authenticationShaped (toString e)"
  shows "withTokenRefresh env operation ctx user s = (Thrown e, s2)"
  unfolding withTokenRefresh_unfold [OF pre]
  using fail auth
  by (simp add: tryCatch_def throws_def)

lemma withTokenRefresh_Returned_last:
  assumes "withTokenRefresh env (external ev f) context user s = (Returned v, s')"
  shows "ev \<in> set (trace s')"
proof -
  from assms obtain u s1 where
    rest: "tryCatch (external ev f) (\<lambda>error.
          let errorMessage = toString error in
          if str_includes errorMessage ''authentication''
             \<or> str_includes errorMessage ''401''
             \<or> str_includes errorMessage ''403''
             \<or> str_includes errorMessage ''token''
          then tryCatch
                 (andThen (refreshTokenAndReconfigureGit env context user) (\<lambda>_.
                  andThen (setLastRefreshTime env) (\<lambda>_.
                  external ev f)))
                 (\<lambda>retryError. throws retryError)
          else throws error) s1 = (Returned v, s')"
    unfolding withTokenRefresh_def by (elim andThen_Returned)
  from tryCatch_Returned [OF rest] show ?thesis
  proof (elim disjE exE conjE)
    assume "external ev f s1 = (Returned v, s')"
    from external_Returned [OF this] show ?thesis by simp
  next
    fix e s2
    assume h: "(let errorMessage = toString e in
          if str_includes errorMessage ''authentication''
             \<or> str_includes errorMessage ''401''
             \<or> str_includes errorMessage ''403''
             \<or> str_includes errorMessage ''token''
          then tryCatch
                 (andThen (refreshTokenAndReconfigureGit env context user) (\<lambda>_.
                  andThen (setLastRefreshTime env) (\<lambda>_.
                  external ev f)))
                 (\<lambda>retryError. throws retryError)
          else throws e) s2 = (Returned v, s')"
    then have "tryCatch
                 (andThen (refreshTokenAndReconfigureGit env context user) (\<lambda>_.
                  andThen (setLastRefreshTime env) (\<lambda>_.
                  external ev f)))
                 (\<lambda>retryError. throws retryError) s2 = (Returned v, s')"
      by (simp add: Let_def throws_not_Returned split: if_splits)
    from tryCatch_Returned [OF this]
    have "andThen (refreshTokenAndReconfigureGit env context user) (\<lambda>_.
                  andThen (setLastRefreshTime env) (\<lambda>_.
                  external ev f)) s2 = (Returned v, s')"
      by (auto simp: throws_not_Returned)
    then obtain a s3 b s4 where "external ev f s4 = (Returned v, s')"
      by (elim andThen_Returned)
    from external_Returned [OF this] show ?thesis by simp
  qed
qed

text \<open>
  Claim C1, as amended. Let \<open>s1\<close> be the state in which the operation is first invoked
  (after the check of lines 287-290), and let that invocation throw \<open>e\<close>, leaving the
  state \<open>s2\<close>.
  \<^item> If the message of \<open>e\<close> is authentication-shaped and the refresh that follows
    succeeds, the result of the call is the result of one further invocation of the
    operation, started with the cell set to the clock after the refresh; between the two
    invocations the trace grows by exactly one token refresh and one reconfiguration.
  \<^item> If the message is authentication-shaped and that refresh fails, the call throws the
    refresh's error and the operation is not invoked again: after the first invocation
    the trace grows by the refresh attempt only.
  \<^item> If the message is not authentication-shaped, the call throws \<open>e\<close> at once and ends
    in \<open>s2\<close>: there is no retry and no refresh.
\<close>

theorem withTokenRefresh_failure_policy:
  assumes pre: "preflightRefresh env ctx user s = (Returned (), s1)"
      and fail: "operation s1 = (Thrown e, s2)"
  shows "(authenticationShaped (toString e) \<longrightarrow>
            refreshTokenAndReconfigureGit env ctx user s2 = (Returned tok, s3) \<longrightarrow>
            withTokenRefresh env operation ctx user s
              = operation (s3\<lparr>lastRefreshTime := dateNow env (world s3)\<rparr>)
            \<and> trace s3 = trace s2 @ [RefreshGitHubToken, ReconfigureGitToken tok])
       \<and> (authenticationShaped (toString e) \<longrightarrow>
            refreshTokenAndReconfigureGit env ctx user s2 = (Thrown e', s3') \<longrightarrow>
            withTokenRefresh env operation ctx user s = (Thrown e', s3')
            \<and> (trace s3' = trace s2 @ [RefreshGitHubToken]
               \<or> (\<exists>t. trace s3' = trace s2 @ [RefreshGitHubToken, ReconfigureGitToken t])))
       \<and> (\<not> authenticationShaped (toString e) \<longrightarrow>
            withTokenRefresh env operation ctx user s = (Thrown e, s2))"
proof (intro conjI impI)
  {
    assume a: "authenticationShaped (toString e)"
       and r: "refreshTokenAndReconfigureGit env ctx user s2 = (Returned tok, s3)"
    show "withTokenRefresh env operation ctx user s
              = operation (s3\<lparr>lastRefreshTime := dateNow env (world s3)\<rparr>)"
      using pre fail a r by (rule withTokenRefresh_retry)
    show "trace s3 = trace s2 @ [RefreshGitHubToken, ReconfigureGitToken tok]"
      using refresh_outcomes [OF r] by simp
  }
  {
    assume a: "authenticationShaped (toString e)"
       and r: "refreshTokenAndReconfigureGit env ctx user s2 = (Thrown e', s3')"
    show "withTokenRefresh env operation ctx user s = (Thrown e', s3')"
      using pre fail a r by (rule withTokenRefresh_refresh_fails)
    show "trace s3' = trace s2 @ [RefreshGitHubToken]
               \<or> (\<exists>t. trace s3' = trace s2 @ [RefreshGitHubToken, ReconfigureGitToken t])"
      using refresh_outcomes [OF r] by auto
  }
  {
    assume a: "\<not> authenticationShaped (toString e)"
    show "withTokenRefresh env operation ctx user s = (Thrown e, s2)"
      using pre fail a by (rule withTokenRefresh_no_retry)
  }
qed

text \<open>
  The three cases on concrete runs: a push that fails with \<open>HTTP 401\<close> and then succeeds,
  a push that fails with \<open>HTTP 403\<close> while the token issuer is down, and a push that fails
  with \<open>connection reset\<close>.
\<close>

theorem withTokenRefresh_failure_policy_witness:
  "withTokenRefresh (retryEnv ''HTTP 401'' issuesToken)
        (sh (retryEnv ''HTTP 401'' issuesToken) pushHead)
        (scriptedContext False None None ''claude-'' False) None freshStart
      = (Returned ''done'',
         \<lparr>world = 4,
          trace = [Shell pushHead, RefreshGitHubToken, ReconfigureGitToken ''tok'', Shell pushHead],
          lastRefreshTime = 3000\<rparr>)
   \<and> withTokenRefresh (retryEnv ''HTTP 403'' issuerDown)
        (sh (retryEnv ''HTTP 403'' issuerDown) pushHead)
        (scriptedContext False None None ''claude-'' False) None freshStart
      = (Thrown (newError ''Token refresh failed: issuer unavailable''),
         \<lparr>world = 2, trace = [Shell pushHead, RefreshGitHubToken], lastRefreshTime = 0\<rparr>)
   \<and> withTokenRefresh (retryEnv ''connection reset'' issuesToken)
        (sh (retryEnv ''connection reset'' issuesToken) pushHead)
        (scriptedContext False None None ''claude-'' False) None freshStart
      = (Thrown (Failure None ''connection reset''),
         \<lparr>world = 1, trace = [Shell pushHead], lastRefreshTime = 0\<rparr>)"
proof (intro conjI)
  let ?ctx = "scriptedContext False None None ''claude-'' False"
  let ?s2 = "\<lparr>world = 1, trace = [Shell pushHead], lastRefreshTime = 0\<rparr> :: nat run_state"
  {
    let ?env = "retryEnv ''HTTP 401'' issuesToken"
    let ?s3 = "\<lparr>world = 3, trace = [Shell pushHead, RefreshGitHubToken, ReconfigureGitToken ''tok''],
                lastRefreshTime = 0\<rparr> :: nat run_state"
    have pre: "preflightRefresh ?env ?ctx None freshStart = (Returned (), freshStart)"
      by code_simp
    have fail: "sh ?env pushHead freshStart = (Thrown (Failure None ''HTTP 401''), ?s2)"
      by code_simp
    have auth: "authenticationShaped (toString (Failure None ''HTTP 401''))"
      by code_simp
    have r: "refreshTokenAndReconfigureGit ?env ?ctx None ?s2 = (Returned ''tok'', ?s3)"
      by code_simp
    have again: "sh ?env pushHead (?s3\<lparr>lastRefreshTime := dateNow ?env (world ?s3)\<rparr>)
         = (Returned ''done'',
         \<lparr>world = 4,
          trace = [Shell pushHead, RefreshGitHubToken, ReconfigureGitToken ''tok'', Shell pushHead],
          lastRefreshTime = 3000\<rparr>)"
      by code_simp
    from withTokenRefresh_failure_policy
           [where operation = "sh ?env pushHead" and ?s1.0 = freshStart
              and tok = "''tok''" and ?s3.0 = ?s3, OF pre fail] auth r
    have "withTokenRefresh ?env (sh ?env pushHead) ?ctx None freshStart
            = sh ?env pushHead (?s3\<lparr>lastRefreshTime := dateNow ?env (world ?s3)\<rparr>)"
      by blast
    with again
    show "withTokenRefresh ?env (sh ?env pushHead) ?ctx None freshStart
      = (Returned ''done'',
         \<lparr>world = 4,
          trace = [Shell pushHead, RefreshGitHubToken, ReconfigureGitToken ''tok'', Shell pushHead],
          lastRefreshTime = 3000\<rparr>)"
      by (simp only:)
  }
  {
    let ?env = "retryEnv ''HTTP 403'' issuerDown"
    let ?s3 = "\<lparr>world = 2, trace = [Shell pushHead, RefreshGitHubToken], lastRefreshTime = 0\<rparr>
                 :: nat run_state"
    have pre: "preflightRefresh ?env ?ctx None freshStart = (Returned (), freshStart)"
      by code_simp
    have fail: "sh ?env pushHead freshStart = (Thrown (Failure None ''HTTP 403''), ?s2)"
      by code_simp
    have auth: "authenticationShaped (toString (Failure None ''HTTP 403''))"
      by code_simp
    have r: "refreshTokenAndReconfigureGit ?env ?ctx None ?s2
               = (Thrown (newError ''Token refresh failed: issuer unavailable''), ?s3)"
      by code_simp
    from withTokenRefresh_failure_policy
           [where operation = "sh ?env pushHead" and ?s1.0 = freshStart
              and e' = "newError ''Token refresh failed: issuer unavailable''" and ?s3'.0 = ?s3,
            OF pre fail] auth r
    show "withTokenRefresh ?env (sh ?env pushHead) ?ctx None freshStart
      = (Thrown (newError ''Token refresh failed: issuer unavailable''), ?s3)"
      by blast
  }
  {
    let ?env = "retryEnv ''connection reset'' issuesToken"
    have pre: "preflightRefresh ?env ?ctx None freshStart = (Returned (), freshStart)"
      by code_simp
    have fail: "sh ?env pushHead freshStart = (Thrown (Failure None ''connection reset''), ?s2)"
      by code_simp
    have auth: "\<not> authenticationShaped (toString (Failure None ''connection reset''))"
      by code_simp
    from withTokenRefresh_failure_policy
           [where operation = "sh ?env pushHead" and ?s1.0 = freshStart, OF pre fail] auth
    show "withTokenRefresh ?env (sh ?env pushHead) ?ctx None freshStart
      = (Thrown (Failure None ''connection reset''), ?s2)"
      by blast
  }
qed

text \<open>
  Claim C1 as stated does not hold: when the push fails with \<open>HTTP 401\<close> and the token
  issuer is down, the push is invoked once, not twice, and the error thrown is the
  refresh's.
\<close>

theorem retry_skipped_when_refresh_fails:
  "fst (withTokenRefresh (retryEnv ''HTTP 401'' issuerDown)
          (sh (retryEnv ''HTTP 401'' issuerDown) pushHead)
          (scriptedContext False None None ''claude-'' False) None freshStart)
     = Thrown (newError ''Token refresh failed: issuer unavailable'')
   \<and> trace (snd (withTokenRefresh (retryEnv ''HTTP 401'' issuerDown)
          (sh (retryEnv ''HTTP 401'' issuerDown) pushHead)
          (scriptedContext False None None ''claude-'' False) None freshStart))
     = [Shell pushHead, RefreshGitHubToken]"
  by code_simp

text \<open>
  Claim C10, as amended. Take a call in which the check before the operation does not
  fire and the operation, a single external call, fails with \<open>e\<close>.
  \<^item> If the message of \<open>e\<close> is authentication-shaped and the refresh that follows
    succeeds, ending in state \<open>s3\<close>, the retry is started from \<open>s3\<close> with the cell
    already set to the clock of \<open>s3\<close>, and the cell holds that value when the call ends,
    whether the retry succeeds or fails.
  \<^item> If the message is authentication-shaped and that refresh fails, no retry runs: the
    call ends where the refresh ended, the trace holding the first invocation and the
    refresh attempt only, and the cell is unchanged.
  \<^item> If the message is not authentication-shaped, the cell is unchanged when the call ends.
\<close>

theorem refresh_time_recorded_before_retry:
  assumes fresh: "\<not> shouldRefreshToken (dateNow env (world s)) (lastRefreshTime s)"
      and fail: "f (world s) = (Inl e, w2)"
  shows "(authenticationShaped (toString e) \<longrightarrow>
            refreshTokenAndReconfigureGit env ctx user
              (s\<lparr>world := w2, trace := trace s @ [ev]\<rparr>) = (Returned tok, s3) \<longrightarrow>
            withTokenRefresh env (external ev f) ctx user s
              = external ev f (s3\<lparr>lastRefreshTime := dateNow env (world s3)\<rparr>)
            \<and> lastRefreshTime (snd (withTokenRefresh env (external ev f) ctx user s))
                = dateNow env (world s3))
       \<and> (authenticationShaped (toString e) \<longrightarrow>
            refreshTokenAndReconfigureGit env ctx user
              (s\<lparr>world := w2, trace := trace s @ [ev]\<rparr>) = (Thrown e', s3') \<longrightarrow>
            withTokenRefresh env (external ev f) ctx user s = (Thrown e', s3')
            \<and> (trace s3' = trace s @ [ev, RefreshGitHubToken]
               \<or> (\<exists>t. trace s3' = trace s @ [ev, RefreshGitHubToken, ReconfigureGitToken t]))
            \<and> lastRefreshTime (snd (withTokenRefresh env (external ev f) ctx user s))
                = lastRefreshTime s)
       \<and> (\<not> authenticationShaped (toString e) \<longrightarrow>
            lastRefreshTime (snd (withTokenRefresh env (external ev f) ctx user s))
              = lastRefreshTime s)"
proof (intro conjI impI)
  let ?s2 = "s\<lparr>world := w2, trace := trace s @ [ev]\<rparr>"
  have pre: "preflightRefresh env ctx user s = (Returned (), s)"
    by (rule preflight_not_due [OF fresh])
  have first: "external ev f s = (Thrown e, ?s2)"
    using fail by (rule external_fails)
  {
    assume a: "authenticationShaped (toString e)"
       and r: "refreshTokenAndReconfigureGit env ctx user ?s2 = (Returned tok, s3)"
    show eq: "withTokenRefresh env (external ev f) ctx user s
              = external ev f (s3\<lparr>lastRefreshTime := dateNow env (world s3)\<rparr>)"
      using pre first a r by (rule withTokenRefresh_retry)
    show "lastRefreshTime (snd (withTokenRefresh env (external ev f) ctx user s))
                = dateNow env (world s3)"
      unfolding eq by (simp add: external_def split: prod.splits sum.splits)
  }
  {
    assume a: "authenticationShaped (toString e)"
       and r: "refreshTokenAndReconfigureGit env ctx user ?s2 = (Thrown e', s3')"
    show eq: "withTokenRefresh env (external ev f) ctx user s = (Thrown e', s3')"
      using pre first a r by (rule withTokenRefresh_refresh_fails)
    show "trace s3' = trace s @ [ev, RefreshGitHubToken]
               \<or> (\<exists>t. trace s3' = trace s @ [ev, RefreshGitHubToken, ReconfigureGitToken t])"
      using refresh_outcomes [OF r] by auto
    show "lastRefreshTime (snd (withTokenRefresh env (external ev f) ctx user s))
                = lastRefreshTime s"
      unfolding eq using refresh_cell [OF r] by simp
  }
  {
    assume a: "\<not> authenticationShaped (toString e)"
    have "withTokenRefresh env (external ev f) ctx user s = (Thrown e, ?s2)"
      using pre first a by (rule withTokenRefresh_no_retry)
    then show "lastRefreshTime (snd (withTokenRefresh env (external ev f) ctx user s))
              = lastRefreshTime s"
      by simp
  }
qed

text \<open>
  Three concrete runs from a cell holding 0: with \<open>bad token\<close> and a working issuer the
  cell ends at 3000, the clock after the refresh; with \<open>token expired\<close> and the issuer
  down it stays at 0; with \<open>disk full\<close> it stays at 0.
\<close>

theorem refresh_time_recorded_before_retry_witness:
  "lastRefreshTime (snd (withTokenRefresh (retryEnv ''bad token'' issuesToken)
        (external (Shell pushHead) (shell (retryEnv ''bad token'' issuesToken) pushHead))
        (scriptedContext False None None ''claude-'' False) None freshStart)) = 3000
   \<and> lastRefreshTime (snd (withTokenRefresh (retryEnv ''token expired'' issuerDown)
        (external (Shell pushHead) (shell (retryEnv ''token expired'' issuerDown) pushHead))
        (scriptedContext False None None ''claude-'' False) None freshStart)) = 0
   \<and> lastRefreshTime (snd (withTokenRefresh (retryEnv ''disk full'' issuesToken)
        (external (Shell pushHead) (shell (retryEnv ''disk full'' issuesToken) pushHead))
        (scriptedContext False None None ''claude-'' False) None freshStart)) = 0"
proof (intro conjI)
  let ?ctx = "scriptedContext False None None ''claude-'' False"
  have cell: "lastRefreshTime freshStart = 0"
    by code_simp
  {
    let ?env = "retryEnv ''bad token'' issuesToken"
    let ?s3 = "\<lparr>world = 3, trace = [Shell pushHead, RefreshGitHubToken, ReconfigureGitToken ''tok''],
                lastRefreshTime = 0\<rparr>"
    have fresh: "\<not> shouldRefreshToken (dateNow ?env (world freshStart)) (lastRefreshTime freshStart)"
      by code_simp
    have fail: "shell ?env pushHead (world freshStart) = (Inl (Failure None ''bad token''), 1)"
      by code_simp
    have auth: "authenticationShaped (toString (Failure None ''bad token''))"
      by code_simp
    have r: "refreshTokenAndReconfigureGit ?env ?ctx None
               (freshStart\<lparr>world := 1, trace := trace freshStart @ [Shell pushHead]\<rparr>)
             = (Returned ''tok'', ?s3)"
      by code_simp
    have now: "dateNow ?env (world ?s3) = 3000"
      by code_simp
    from refresh_time_recorded_before_retry
           [where f = "shell ?env pushHead" and s = freshStart and ev = "Shell pushHead"
              and tok = "''tok''" and ?s3.0 = ?s3 and ctx = ?ctx and user = None,
            OF fresh fail] auth r
    have "lastRefreshTime (snd (withTokenRefresh ?env
            (external (Shell pushHead) (shell ?env pushHead)) ?ctx None freshStart))
          = dateNow ?env (world ?s3)"
      by blast
    with now show "lastRefreshTime (snd (withTokenRefresh ?env
            (external (Shell pushHead) (shell ?env pushHead)) ?ctx None freshStart)) = 3000"
      by (simp only:)
  }
  {
    let ?env = "retryEnv ''token expired'' issuerDown"
    let ?s3 = "\<lparr>world = 2, trace = [Shell pushHead, RefreshGitHubToken], lastRefreshTime = 0\<rparr>
                 :: nat run_state"
    have fresh: "\<not> shouldRefreshToken (dateNow ?env (world freshStart)) (lastRefreshTime freshStart)"
      by code_simp
    have fail: "shell ?env pushHead (world freshStart) = (Inl (Failure None ''token expired''), 1)"
      by code_simp
    have auth: "authenticationShaped (toString (Failure None ''token expired''))"
      by code_simp
    have r: "refreshTokenAndReconfigureGit ?env ?ctx None
               (freshStart\<lparr>world := 1, trace := trace freshStart @ [Shell pushHead]\<rparr>)
             = (Thrown (newError ''Token refresh failed: issuer unavailable''), ?s3)"
      by code_simp
    from refresh_time_recorded_before_retry
           [where f = "shell ?env pushHead" and s = freshStart and ev = "Shell pushHead"
              and e' = "newError ''Token refresh failed: issuer unavailable''"
              and ?s3'.0 = ?s3 and ctx = ?ctx and user = None,
            OF fresh fail] auth r
    have "lastRefreshTime (snd (withTokenRefresh ?env
            (external (Shell pushHead) (shell ?env pushHead)) ?ctx None freshStart))
          = lastRefreshTime freshStart"
      by blast
    with cell show "lastRefreshTime (snd (withTokenRefresh ?env
            (external (Shell pushHead) (shell ?env pushHead)) ?ctx None freshStart)) = 0"
      by (simp only:)
  }
  {
    let ?env = "retryEnv ''disk full'' issuesToken"
    have fresh: "\<not> shouldRefreshToken (dateNow ?env (world freshStart)) (lastRefreshTime freshStart)"
      by code_simp
    have fail: "shell ?env pushHead (world freshStart) = (Inl (Failure None ''disk full''), 1)"
      by code_simp
    have auth: "\<not> authenticationShaped (toString (Failure None ''disk full''))"
      by code_simp
    from refresh_time_recorded_before_retry
           [where f = "shell ?env pushHead" and s = freshStart and ev = "Shell pushHead"
              and ctx = ?ctx and user = None,
            OF fresh fail] auth
    have "lastRefreshTime (snd (withTokenRefresh ?env
            (external (Shell pushHead) (shell ?env pushHead)) ?ctx None freshStart))
          = lastRefreshTime freshStart"
      by blast
    with cell show "lastRefreshTime (snd (withTokenRefresh ?env
            (external (Shell pushHead) (shell ?env pushHead)) ?ctx None freshStart)) = 0"
      by (simp only:)
  }
qed

text \<open>
  Claim C10 as stated does not hold, in two ways. When the push fails with \<open>bad token\<close>
  and the token issuer is down, the cell still holds 0 at the end of the call although
  the clock has reached 2000, and the push has run once. When the cell is 45 minutes old
  at the start of the call, so that the check before the operation fires, and the push
  fails with \<open>disk full\<close>, the cell has moved from -2700000 to 2000 when the call ends.
\<close>

theorem refresh_cell_not_as_claimed:
  "lastRefreshTime (snd (withTokenRefresh (retryEnv ''bad token'' issuerDown)
          (sh (retryEnv ''bad token'' issuerDown) pushHead)
          (scriptedContext False None None ''claude-'' False) None freshStart)) = 0
   \<and> dateNow (retryEnv ''bad token'' issuerDown)
        (world (snd (withTokenRefresh (retryEnv ''bad token'' issuerDown)
          (sh (retryEnv ''bad token'' issuerDown) pushHead)
          (scriptedContext False None None ''claude-'' False) None freshStart))) = 2000
   \<and> length (filter isShell (trace (snd (withTokenRefresh (retryEnv ''bad token'' issuerDown)
          (sh (retryEnv ''bad token'' issuerDown) pushHead)
          (scriptedContext False None None ''claude-'' False) None freshStart)))) = 1
   \<and> lastRefreshTime staleStart = - 2700000
   \<and> fst (withTokenRefresh (failingEnv ''disk full'')
          (sh (failingEnv ''disk full'') pushHead)
          (scriptedContext False None None ''claude-'' False) None staleStart)
       = Thrown (Failure None ''disk full'')
   \<and> lastRefreshTime (snd (withTokenRefresh (failingEnv ''disk full'')
          (sh (failingEnv ''disk full'') pushHead)
          (scriptedContext False None None ''claude-'' False) None staleStart)) = 2000"
  by code_simp

section \<open>Branch resolution\<close>

subsection \<open>A provided branch that cannot be looked up\<close>

text \<open>
  Claim C5. When the context provides a branch name and the lookup of that branch fails,
  \<open>setupBranch\<close> throws: with status 404 the error
  \<open>Specified branch '...' does not exist in the repository\<close>, naming the branch; with
  any other failure the lookup's own error. In both cases the only call made is the
  lookup, so nothing is fetched and nothing is checked out.
\<close>

theorem provided_branch_lookup_failure:
  assumes "branch (inputs context) = Some b" and "b \<noteq> []"
      and "repos_getBranch env (owner (repository context)) (repo (repository context)) b w
             = (Inl e, w')"
  shows "setupBranch env githubData context w =
           (Thrown (if status e = Some 404
                    then newError (''Specified branch '' @ [CHR 0x27] @ b @ [CHR 0x27]
                                   @ '' does not exist in the repository'')
                    else e),
            \<lparr>world = w',
             trace = [ReposGetBranch (owner (repository context)) (repo (repository context)) b],
             lastRefreshTime = dateNow env w\<rparr>)"
  using assms
  by (simp add: setupBranch_def useProvidedBranch_def Let_def andThen_def tryCatch_def
        external_def throws_def)

text \<open>A lookup answering 404 and a lookup answering 500, for the branch \<open>dev\<close>.\<close>

theorem provided_branch_lookup_failure_witness:
  "setupBranch (lookupEnv (Inl notFound) (Inr ''abc123'')) (openPullRequest 1)
      (scriptedContext False (Some ''dev'') None ''claude-'' False) 0
     = (Thrown (newError (''Specified branch '' @ [CHR 0x27] @ ''dev'' @ [CHR 0x27]
                          @ '' does not exist in the repository'')),
        \<lparr>world = 1, trace = [ReposGetBranch ''acme'' ''widgets'' ''dev''], lastRefreshTime = 0\<rparr>)
   \<and> setupBranch (lookupEnv (Inl (Failure (Some 500) ''HttpError: Server Error'')) (Inr ''abc123''))
      (openPullRequest 1) (scriptedContext False (Some ''dev'') None ''claude-'' False) 0
     = (Thrown (Failure (Some 500) ''HttpError: Server Error''),
        \<lparr>world = 1, trace = [ReposGetBranch ''acme'' ''widgets'' ''dev''], lastRefreshTime = 0\<rparr>)"
proof (intro conjI)
  let ?ctx = "scriptedContext False (Some ''dev'') None ''claude-'' False"
  have b: "branch (inputs ?ctx) = Some ''dev''" and ne: "''dev'' \<noteq> []"
    by code_simp+
  {
    let ?env = "lookupEnv (Inl notFound) (Inr ''abc123'')"
    have look: "repos_getBranch ?env (owner (repository ?ctx)) (repo (repository ?ctx)) ''dev'' 0
                  = (Inl notFound, 1)"
      by code_simp
    have vals: "status notFound = Some 404" "owner (repository ?ctx) = ''acme''"
      "repo (repository ?ctx) = ''widgets''" "dateNow ?env 0 = 0"
      by code_simp+
    from provided_branch_lookup_failure [OF b ne look, of "openPullRequest 1"] vals
    show "setupBranch ?env (openPullRequest 1) ?ctx 0
     = (Thrown (newError (''Specified branch '' @ [CHR 0x27] @ ''dev'' @ [CHR 0x27]
                          @ '' does not exist in the repository'')),
        \<lparr>world = 1, trace = [ReposGetBranch ''acme'' ''widgets'' ''dev''], lastRefreshTime = 0\<rparr>)"
      by simp
  }
  {
    let ?e = "Failure (Some 500) ''HttpError: Server Error''"
    let ?env = "lookupEnv (Inl ?e) (Inr ''abc123'')"
    have look: "repos_getBranch ?env (owner (repository ?ctx)) (repo (repository ?ctx)) ''dev'' 0
                  = (Inl ?e, 1)"
      by code_simp
    have vals: "(status ?e = Some 404) = False" "owner (repository ?ctx) = ''acme''"
      "repo (repository ?ctx) = ''widgets''" "dateNow ?env 0 = 0"
      by code_simp+
    from provided_branch_lookup_failure [OF b ne look, of "openPullRequest 1"] vals
    show "setupBranch ?env (openPullRequest 1) ?ctx 0
     = (Thrown ?e,
        \<lparr>world = 1, trace = [ReposGetBranch ''acme'' ''widgets'' ''dev''], lastRefreshTime = 0\<rparr>)"
      by simp
  }
qed

subsection \<open>An open pull request\<close>

text \<open>
  Claim C7, as amended. For a pull request that is neither closed nor merged, in a context
  that provides no branch:
  \<^item> every \<open>git fetch\<close> that is run has the arguments
    \<open>origin --depth=max(totalCount, 20) headRefName\<close>;
  \<^item> when \<open>setupBranch\<close> returns, it returns the pull request's base branch as
    \<open>baseBranch\<close>, its head branch as \<open>currentBranch\<close> and no \<open>claudeBranch\<close>, and that
    fetch has been run;
  \<^item> it does return when the fetch, run through the retry wrapper, and the checkout
    succeed.
\<close>

theorem open_pull_request_checkout:
  assumes nobranch: "\<not> truthy (branch (inputs context))"
      and pr: "isPR context"
      and opn: "state (contextData githubData) \<noteq> ''CLOSED''"
               "state (contextData githubData) \<noteq> ''MERGED''"
      and run: "setupBranch env githubData context w = (r, s')"
  shows "(\<forall>argv. Shell argv \<in> set (trace s') \<longrightarrow> take 2 argv = [''git'', ''fetch''] \<longrightarrow>
            argv = [''git'', ''fetch'', ''origin'',
                    ''--depth='' @ numberToString (max (commits_totalCount (contextData githubData)) 20),
                    headRefName (contextData githubData)])
       \<and> (\<forall>info. r = Returned info \<longrightarrow>
            info = \<lparr>info_baseBranch = baseRefName (contextData githubData),
                    info_claudeBranch = None,
                    info_currentBranch = headRefName (contextData githubData)\<rparr>
            \<and> Shell [''git'', ''fetch'', ''origin'',
                      ''--depth='' @ numberToString (max (commits_totalCount (contextData githubData)) 20),
                      headRefName (contextData githubData)] \<in> set (trace s'))
       \<and> (\<forall>out s1 out' w2.
            withTokenRefresh env
              (sh env [''git'', ''fetch'', ''origin'',
                       ''--depth='' @ numberToString (max (commits_totalCount (contextData githubData)) 20),
                       headRefName (contextData githubData)])
              context None \<lparr>world = w, trace = [], lastRefreshTime = dateNow env w\<rparr>
              = (Returned out, s1) \<longrightarrow>
            shell env [''git'', ''checkout'', headRefName (contextData githubData)] (world s1)
              = (Inr out', w2) \<longrightarrow>
            r = Returned \<lparr>info_baseBranch = baseRefName (contextData githubData),
                            info_claudeBranch = None,
                            info_currentBranch = headRefName (contextData githubData)\<rparr>)"
proof -
  let ?pr = "contextData githubData"
  let ?fetch = "[''git'', ''fetch'', ''origin'',
                 ''--depth='' @ numberToString (fetchDepth (commits_totalCount ?pr)),
                 headRefName ?pr]"
  let ?s0 = "\<lparr>world = w, trace = [], lastRefreshTime = dateNow env w\<rparr>"
  let ?P = "refreshEvents \<union> {Shell ?fetch, Shell [''git'', ''checkout'', headRefName ?pr]}"
  have run': "checkoutPRBranch env ?pr context ?s0 = (r, s')"
    using assms by (simp add: setupBranch_def Let_def)
  have "appendsOnly ?P (checkoutPRBranch env ?pr context)"
  proof (rule appendsOnly_checkoutPRBranch)
    show "refreshEvents \<subseteq> ?P" by (rule Un_upper1)
  qed simp_all
  from appendsOnlyD [OF this run'] have sub: "set (trace s') \<subseteq> ?P" by auto
  have a: "argv = ?fetch" if "Shell argv \<in> set (trace s')" "take 2 argv = [''git'', ''fetch'']" for argv
  proof -
    from sub that(1) have "Shell argv \<in> ?P" by (rule subsetD)
    then have "argv = ?fetch \<or> argv = [''git'', ''checkout'', headRefName ?pr]"
      by (simp add: refreshEvents_def image_iff)
    with that(2) show ?thesis by auto
  qed
  have b: "info = \<lparr>info_baseBranch = baseRefName ?pr, info_claudeBranch = None,
                    info_currentBranch = headRefName ?pr\<rparr>
           \<and> Shell ?fetch \<in> set (trace s')" if "r = Returned info" for info
  proof -
    from run' that have "checkoutPRBranch env ?pr context ?s0 = (Returned info, s')" by simp
    then obtain v1 s1 v2 s2 where
        f: "withTokenRefresh env (sh env ?fetch) context None ?s0 = (Returned v1, s1)"
      and c: "sh env [''git'', ''checkout'', headRefName ?pr] s1 = (Returned v2, s2)"
      and e: "returns \<lparr>info_baseBranch = baseRefName ?pr, info_claudeBranch = None,
                    info_currentBranch = headRefName ?pr\<rparr> s2 = (Returned info, s')"
      unfolding checkoutPRBranch_def Let_def
      by (elim andThen_Returned) 
    from f have "Shell ?fetch \<in> set (trace s1)"
      unfolding sh_def by (rule withTokenRefresh_Returned_last)
    moreover from c have "trace s2 = trace s1 @ [Shell [''git'', ''checkout'', headRefName ?pr]]"
      unfolding sh_def by (rule external_Returned)
    moreover from e have "s' = s2" and "info = \<lparr>info_baseBranch = baseRefName ?pr, info_claudeBranch = None,
                    info_currentBranch = headRefName ?pr\<rparr>"
      by (auto simp: returns_def)
    ultimately show ?thesis by simp
  qed
  have c: "r = Returned \<lparr>info_baseBranch = baseRefName ?pr, info_claudeBranch = None,
                           info_currentBranch = headRefName ?pr\<rparr>"
    if "withTokenRefresh env (sh env ?fetch) context None ?s0 = (Returned out, s1)"
      and "shell env [''git'', ''checkout'', headRefName ?pr] (world s1) = (Inr out', w2)"
    for out s1 out' w2
    using run' that
    by (simp add: checkoutPRBranch_def Let_def andThen_def sh_def external_def returns_def)
  from a b c show ?thesis unfolding fetchDepth_def by blast
qed

text \<open>Pull requests of 5 and of 37 commits: the depths are 20 and 37.\<close>

theorem open_pull_request_checkout_witness:
  "fst (setupBranch (lookupEnv (Inr ()) (Inr ''abc123'')) (openPullRequest 5)
          (scriptedContext True None None ''claude-'' False) 0)
     = Returned \<lparr>info_baseBranch = ''main'', info_claudeBranch = None,
                 info_currentBranch = ''feature''\<rparr>
   \<and> Shell [''git'', ''fetch'', ''origin'', ''--depth=20'', ''feature'']
       \<in> set (trace (snd (setupBranch (lookupEnv (Inr ()) (Inr ''abc123'')) (openPullRequest 5)
                             (scriptedContext True None None ''claude-'' False) 0)))
   \<and> Shell [''git'', ''fetch'', ''origin'', ''--depth=37'', ''feature'']
       \<in> set (trace (snd (setupBranch (lookupEnv (Inr ()) (Inr ''abc123'')) (openPullRequest 37)
                             (scriptedContext True None None ''claude-'' False) 0)))"
proof -
  let ?ctx = "scriptedContext True None None ''claude-'' False"
  let ?env = "lookupEnv (Inr ()) (Inr ''abc123'')"
  let ?info = "\<lparr>info_baseBranch = ''main'', info_claudeBranch = None,
                 info_currentBranch = ''feature''\<rparr>"
  have hyps: "\<not> truthy (branch (inputs ?ctx))" "isPR ?ctx"
    by code_simp+
  have st: "state (contextData (openPullRequest n)) \<noteq> ''CLOSED''"
           "state (contextData (openPullRequest n)) \<noteq> ''MERGED''" for n
    by (simp_all add: openPullRequest_def)
  have vals: "baseRefName (contextData (openPullRequest n)) = ''main''"
             "headRefName (contextData (openPullRequest n)) = ''feature''"
             "commits_totalCount (contextData (openPullRequest n)) = n" for n
    by (simp_all add: openPullRequest_def)
  have depth: "''--depth='' @ numberToString (max 5 20) = ''--depth=20''"
              "''--depth='' @ numberToString (max 37 20) = ''--depth=37''"
    by code_simp+
  have r5: "fst (setupBranch ?env (openPullRequest 5) ?ctx 0) = Returned ?info"
    by code_simp
  have r37: "fst (setupBranch ?env (openPullRequest 37) ?ctx 0) = Returned ?info"
    by code_simp
  have run5: "setupBranch ?env (openPullRequest 5) ?ctx 0
                = (fst (setupBranch ?env (openPullRequest 5) ?ctx 0),
                   snd (setupBranch ?env (openPullRequest 5) ?ctx 0))"
    by simp
  have run37: "setupBranch ?env (openPullRequest 37) ?ctx 0
                = (fst (setupBranch ?env (openPullRequest 37) ?ctx 0),
                   snd (setupBranch ?env (openPullRequest 37) ?ctx 0))"
    by simp
  from open_pull_request_checkout [OF hyps st run5] r5
  have a: "Shell [''git'', ''fetch'', ''origin'', ''--depth='' @ numberToString (max 5 20), ''feature'']
       \<in> set (trace (snd (setupBranch ?env (openPullRequest 5) ?ctx 0)))"
    unfolding vals by blast
  from open_pull_request_checkout [OF hyps st run37] r37
  have b: "Shell [''git'', ''fetch'', ''origin'', ''--depth='' @ numberToString (max 37 20), ''feature'']
       \<in> set (trace (snd (setupBranch ?env (openPullRequest 37) ?ctx 0)))"
    unfolding vals by blast
  from r5 a b show ?thesis
    unfolding depth by (intro conjI)
qed

text \<open>
  Claim C7 as stated does not hold: for an open pull request in a context that provides
  the branch \<open>dev\<close>, the first block of \<open>setupBranch\<close> runs. The fetch is of
  \<open>dev\<close> with no depth, and the result has \<open>claudeBranch\<close> and \<open>currentBranch\<close>
  \<open>dev\<close>, not the head branch \<open>feature\<close>.
\<close>

theorem provided_branch_overrides_open_pull_request:
  "fst (setupBranch (lookupEnv (Inr ()) (Inr ''abc123'')) (openPullRequest 5)
          (scriptedContext True (Some ''dev'') None ''claude-'' False) 0)
     = Returned \<lparr>info_baseBranch = ''main'', info_claudeBranch = Some ''dev'',
                 info_currentBranch = ''dev''\<rparr>
   \<and> filter isShell
       (trace (snd (setupBranch (lookupEnv (Inr ()) (Inr ''abc123'')) (openPullRequest 5)
                      (scriptedContext True (Some ''dev'') None ''claude-'' False) 0)))
     = [Shell [''git'', ''fetch'', ''origin'', ''dev''], Shell [''git'', ''checkout'', ''dev'']]"
  by code_simp

subsection \<open>A new branch\<close>

text \<open>
  Claim C8, as amended. For an issue or a closed or merged pull request, in a context that
  provides no branch, with commit signing delegated: no shell command at all is run, so no branch
  is created locally (\<open>git checkout -b\<close>) or remotely (\<open>git push\<close>); whenever
  \<open>setupBranch\<close> returns, \<open>currentBranch\<close> equals \<open>baseBranch\<close>; and when the source
  branch is resolved to \<open>sourceBranch\<close> (the provided base branch, or else the default
  branch of the repository) and its ref is found, \<open>setupBranch\<close> returns
  \<open>baseBranch = sourceBranch\<close>, \<open>claudeBranch\<close> the generated name and
  \<open>currentBranch = sourceBranch\<close>.
\<close>

theorem signing_defers_branch_creation:
  assumes nobranch: "\<not> truthy (branch (inputs context))"
      and kind: "\<not> isPR context \<or> state (contextData githubData) = ''CLOSED''
                 \<or> state (contextData githubData) = ''MERGED''"
      and signing: "useCommitSigning (inputs context)"
      and run: "setupBranch env githubData context w = (r, s')"
  shows "(\<forall>ev \<in> set (trace s'). \<not> isShell ev)
       \<and> (\<forall>info. r = Returned info \<longrightarrow> info_currentBranch info = info_baseBranch info)
       \<and> (\<forall>sourceBranch w1 sha w2.
            (if truthy (baseBranch (inputs context))
             then sourceBranch = stringOf (baseBranch (inputs context)) \<and> w1 = w
             else repos_get env (owner (repository context)) (repo (repository context)) w
                    = (Inr sourceBranch, w1)) \<longrightarrow>
            git_getRef env (owner (repository context)) (repo (repository context))
              (''heads/'' @ sourceBranch) w1 = (Inr sha, w2) \<longrightarrow>
            r = Returned
                  \<lparr>info_baseBranch = sourceBranch,
                   info_claudeBranch =
                     Some (newBranch (branchPrefix (inputs context)) (isPR context)
                             (entityNumber context) (newDate env w1)),
                   info_currentBranch = sourceBranch\<rparr>)"
proof (intro conjI allI impI ballI)
  let ?s0 = "\<lparr>world = w, trace = [], lastRefreshTime = dateNow env w\<rparr>"
  have run': "createNewBranch env context ?s0 = (r, s')"
    using nobranch kind run by (auto simp: setupBranch_def Let_def)
  {
    fix ev assume "ev \<in> set (trace s')"
    moreover from appendsOnlyD [OF appendsOnly_createNewBranch_signing [OF signing] run']
    have "set (trace s') \<subseteq> {ev. \<not> isShell ev}" by auto
    ultimately show "\<not> isShell ev" by blast
  }
  {
    fix info assume "r = Returned info"
    with run' signing show "info_currentBranch info = info_baseBranch info"
      by (auto simp: createNewBranch_def Let_def action_defs
            split: prod.splits sum.splits if_splits)
  }
  {
    fix sourceBranch w1 sha w2
    assume "if truthy (baseBranch (inputs context))
             then sourceBranch = stringOf (baseBranch (inputs context)) \<and> w1 = w
             else repos_get env (owner (repository context)) (repo (repository context)) w
                    = (Inr sourceBranch, w1)"
       and "git_getRef env (owner (repository context)) (repo (repository context))
              (''heads/'' @ sourceBranch) w1 = (Inr sha, w2)"
    with run' signing show "r = Returned
                  \<lparr>info_baseBranch = sourceBranch,
                   info_claudeBranch =
                     Some (newBranch (branchPrefix (inputs context)) (isPR context)
                             (entityNumber context) (newDate env w1)),
                   info_currentBranch = sourceBranch\<rparr>"
      by (simp add: createNewBranch_def Let_def action_defs split: if_splits)
  }
qed

text \<open>Issue 42 with signing delegated, default branch \<open>main\<close>.\<close>

theorem signing_defers_branch_creation_witness:
  "fst (setupBranch (lookupEnv (Inr ()) (Inr ''abc123'')) (openPullRequest 1)
          (scriptedContext False None None ''claude-'' True) 0)
     = Returned \<lparr>info_baseBranch = ''main'',
                 info_claudeBranch = Some ''claude-issue-42-20240315-1430'',
                 info_currentBranch = ''main''\<rparr>
   \<and> filter isShell (trace (snd (setupBranch (lookupEnv (Inr ()) (Inr ''abc123''))
        (openPullRequest 1) (scriptedContext False None None ''claude-'' True) 0))) = []"
proof -
  let ?ctx = "scriptedContext False None None ''claude-'' True"
  let ?env = "lookupEnv (Inr ()) (Inr ''abc123'')"
  let ?run = "setupBranch ?env (openPullRequest 1) ?ctx 0"
  have hyps: "\<not> truthy (branch (inputs ?ctx))"
    "\<not> isPR ?ctx \<or> state (contextData (openPullRequest 1)) = ''CLOSED''
       \<or> state (contextData (openPullRequest 1)) = ''MERGED''"
    "useCommitSigning (inputs ?ctx)"
    by code_simp+
  have run: "?run = (fst ?run, snd ?run)" by simp
  note facts = signing_defers_branch_creation [OF hyps run]
  have src: "if truthy (baseBranch (inputs ?ctx))
             then ''main'' = stringOf (baseBranch (inputs ?ctx)) \<and> (1::nat) = 0
             else repos_get ?env (owner (repository ?ctx)) (repo (repository ?ctx)) 0
                    = (Inr ''main'', 1)"
    by code_simp
  have ref: "git_getRef ?env (owner (repository ?ctx)) (repo (repository ?ctx))
              (''heads/'' @ ''main'') 1 = (Inr ''abc123'', 2)"
    by code_simp
  have name: "newBranch (branchPrefix (inputs ?ctx)) (isPR ?ctx) (entityNumber ?ctx)
                (newDate ?env 1) = ''claude-issue-42-20240315-1430''"
    by code_simp
  from facts src ref have "fst ?run = Returned
                  \<lparr>info_baseBranch = ''main'',
                   info_claudeBranch =
                     Some (newBranch (branchPrefix (inputs ?ctx)) (isPR ?ctx)
                             (entityNumber ?ctx) (newDate ?env 1)),
                   info_currentBranch = ''main''\<rparr>"
    by blast
  moreover from facts have "\<forall>ev \<in> set (trace (snd ?run)). \<not> isShell ev"
    by blast
  then have "filter isShell (trace (snd ?run)) = []"
    by (simp add: filter_empty_conv)
  ultimately show ?thesis
    unfolding name by (intro conjI)
qed

text \<open>
  Claim C8 as stated does not hold: for an issue with signing delegated, in a context that
  provides the branch \<open>dev\<close> and the base branch \<open>release\<close>, the first block of
  \<open>setupBranch\<close> runs. It fetches and checks out \<open>dev\<close>, and the result has
  \<open>claudeBranch\<close> and \<open>currentBranch\<close> \<open>dev\<close>: the current branch is not the source
  branch \<open>release\<close> and the agent branch is not a generated name.
\<close>

theorem provided_branch_overrides_signing:
  "fst (setupBranch (lookupEnv (Inr ()) (Inr ''abc123'')) (openPullRequest 1)
          (scriptedContext False (Some ''dev'') (Some ''release'') ''claude-'' True) 0)
     = Returned \<lparr>info_baseBranch = ''release'', info_claudeBranch = Some ''dev'',
                 info_currentBranch = ''dev''\<rparr>
   \<and> filter isShell
       (trace (snd (setupBranch (lookupEnv (Inr ()) (Inr ''abc123'')) (openPullRequest 1)
                      (scriptedContext False (Some ''dev'') (Some ''release'') ''claude-'' True) 0)))
     = [Shell [''git'', ''fetch'', ''origin'', ''dev''], Shell [''git'', ''checkout'', ''dev'']]"
  by code_simp

text \<open>
  Claim C3, as amended. For an issue or a closed or merged pull request, in a context that
  provides no branch: when the lookup of the source branch's ref fails, with status 404 or
  with any other error, \<open>setupBranch\<close> neither returns nor throws. The process exits with
  status 1 inside \<open>setupBranch\<close>, after the lookups alone.
\<close>

theorem missing_source_ref_exits:
  assumes nobranch: "\<not> truthy (branch (inputs context))"
      and kind: "\<not> isPR context \<or> state (contextData githubData) = ''CLOSED''
                 \<or> state (contextData githubData) = ''MERGED''"
      and src: "if truthy (baseBranch (inputs context))
                then sourceBranch = stringOf (baseBranch (inputs context)) \<and> w1 = w
                else repos_get env (owner (repository context)) (repo (repository context)) w
                       = (Inr sourceBranch, w1)"
      and ref: "git_getRef env (owner (repository context)) (repo (repository context))
                  (''heads/'' @ sourceBranch) w1 = (Inl e, w2)"
  shows "setupBranch env githubData context w =
           (Exited 1,
            \<lparr>world = w2,
             trace = (if truthy (baseBranch (inputs context)) then []
                      else [ReposGet (owner (repository context)) (repo (repository context))])
                     @ [GitGetRef (owner (repository context)) (repo (repository context))
                          (''heads/'' @ sourceBranch)],
             lastRefreshTime = dateNow env w\<rparr>)"
proof -
  let ?s0 = "\<lparr>world = w, trace = [], lastRefreshTime = dateNow env w\<rparr>"
  have "setupBranch env githubData context w = createNewBranch env context ?s0"
    using nobranch kind by (auto simp: setupBranch_def Let_def)
  also have "\<dots> = (Exited 1,
            \<lparr>world = w2,
             trace = (if truthy (baseBranch (inputs context)) then []
                      else [ReposGet (owner (repository context)) (repo (repository context))])
                     @ [GitGetRef (owner (repository context)) (repo (repository context))
                          (''heads/'' @ sourceBranch)],
             lastRefreshTime = dateNow env w\<rparr>)"
    using src ref by (simp add: createNewBranch_def Let_def action_defs split: if_splits)
  finally show ?thesis .
qed

text \<open>Issue 42, default branch \<open>main\<close>, whose ref lookup answers 404.\<close>

theorem missing_source_ref_exits_witness:
  "setupBranch (lookupEnv (Inr ()) (Inl notFound)) (openPullRequest 1)
      (scriptedContext False None None ''claude-'' False) 0
     = (Exited 1,
        \<lparr>world = 2,
         trace = [ReposGet ''acme'' ''widgets'', GitGetRef ''acme'' ''widgets'' ''heads/main''],
         lastRefreshTime = 0\<rparr>)"
proof -
  let ?ctx = "scriptedContext False None None ''claude-'' False"
  let ?env = "lookupEnv (Inr ()) (Inl notFound)"
  have hyps: "\<not> truthy (branch (inputs ?ctx))"
    "\<not> isPR ?ctx \<or> state (contextData (openPullRequest 1)) = ''CLOSED''
       \<or> state (contextData (openPullRequest 1)) = ''MERGED''"
    by code_simp+
  have src: "if truthy (baseBranch (inputs ?ctx))
             then ''main'' = stringOf (baseBranch (inputs ?ctx)) \<and> (1::nat) = 0
             else repos_get ?env (owner (repository ?ctx)) (repo (repository ?ctx)) 0
                    = (Inr ''main'', 1)"
    by code_simp
  have ref: "git_getRef ?env (owner (repository ?ctx)) (repo (repository ?ctx))
              (''heads/'' @ ''main'') 1 = (Inl notFound, 2)"
    by code_simp
  have vals: "truthy (baseBranch (inputs ?ctx)) = False" "owner (repository ?ctx) = ''acme''"
    "repo (repository ?ctx) = ''widgets''" "dateNow ?env 0 = 0"
    by code_simp+
  from missing_source_ref_exits [OF hyps src ref] show ?thesis
    unfolding vals by simp
qed

text \<open>
  Claim C3 as stated does not hold: for a closed pull request with base branch
  \<open>release\<close> whose ref lookup answers 404, the caller of \<open>setupBranch\<close> is not handed
  the lookup's error; the process exits.
\<close>

theorem missing_source_ref_not_thrown:
  "fst (setupBranch (lookupEnv (Inr ()) (Inl notFound)) closedPullRequest
          (scriptedContext True None (Some ''release'') ''claude-'' False) 0) = Exited 1
   \<and> fst (setupBranch (lookupEnv (Inr ()) (Inl notFound)) closedPullRequest
          (scriptedContext True None (Some ''release'') ''claude-'' False) 0) \<noteq> Thrown notFound"
  by code_simp

subsection \<open>The named results\<close>

lemma useProvidedBranch_outputs:
  assumes run: "useProvidedBranch env context b s = (Returned info, s')"
  shows "info_claudeBranch info = Some b
       \<and> filter isSetOutput (trace s') = filter isSetOutput (trace s)
           @ [SetOutput ''CLAUDE_BRANCH'' b, SetOutput ''BASE_BRANCH'' (info_baseBranch info)]"
proof -
  let ?own = "owner (repository context)" and ?rep = "repo (repository context)"
  let ?lookup = "tryCatch
           (andThen (external (ReposGetBranch ?own ?rep b) (repos_getBranch env ?own ?rep b))
              (\<lambda>_. returns ()))
           (\<lambda>error.
              if status error = Some 404
              then throws (newError (''Specified branch '' @ [CHR 0x27] @ b @ [CHR 0x27]
                                     @ '' does not exist in the repository''))
              else throws error)"
  let ?base = "if truthy (baseBranch (inputs context))
         then returns (stringOf (baseBranch (inputs context)))
         else external (ReposGet ?own ?rep) (repos_get env ?own ?rep)"
  from run obtain u1 s1 u2 s2 u3 s3 d s4 u5 s5 u6 s6 where
        1: "?lookup s = (Returned u1, s1)"
    and 2: "withTokenRefresh env (sh env [''git'', ''fetch'', ''origin'', b]) context None s1
              = (Returned u2, s2)"
    and 3: "sh env [''git'', ''checkout'', b] s2 = (Returned u3, s3)"
    and 4: "?base s3 = (Returned d, s4)"
    and 5: "core_setOutput ''CLAUDE_BRANCH'' b s4 = (Returned u5, s5)"
    and 6: "core_setOutput ''BASE_BRANCH'' d s5 = (Returned u6, s6)"
    and 7: "returns \<lparr>info_baseBranch = d, info_claudeBranch = Some b,
                     info_currentBranch = b\<rparr> s6 = (Returned info, s')"
    unfolding useProvidedBranch_def Let_def by (elim andThen_Returned)
  have "appendsOnly {ev. \<not> isSetOutput ev} ?lookup"
    by (intro appendsOnly_intros; simp)
  from outputs_preserved [OF this 1]
  have o1: "filter isSetOutput (trace s1) = filter isSetOutput (trace s)" .
  have "appendsOnly {ev. \<not> isSetOutput ev} ?base"
    by (intro appendsOnly_intros; simp)
  from outputs_preserved [OF this 4]
  have o4: "filter isSetOutput (trace s4) = filter isSetOutput (trace s3)" .
  from returns_run [OF 7] have info: "info = \<lparr>info_baseBranch = d, info_claudeBranch = Some b,
                     info_currentBranch = b\<rparr>" and s': "s' = s6" by simp_all
  show ?thesis
    using o1 fetch_keeps_outputs [OF 2] sh_keeps_outputs [OF 3] o4
      setOutput_run [OF 5] setOutput_run [OF 6] info s'
    by simp
qed

lemma checkoutPRBranch_outputs:
  assumes run: "checkoutPRBranch env prData context s = (Returned info, s')"
  shows "info_claudeBranch info = None
       \<and> filter isSetOutput (trace s') = filter isSetOutput (trace s)"
proof -
  have "appendsOnly {ev. \<not> isSetOutput ev} (checkoutPRBranch env prData context)"
    by (rule appendsOnly_checkoutPRBranch [OF refreshEvents_not_outputs]) simp_all
  from outputs_preserved [OF this run]
  have "filter isSetOutput (trace s') = filter isSetOutput (trace s)" .
  moreover from run obtain u1 s1 u2 s2 where
    "returns \<lparr>info_baseBranch = baseRefName prData, info_claudeBranch = None,
              info_currentBranch = headRefName prData\<rparr> s2 = (Returned info, s')"
    unfolding checkoutPRBranch_def Let_def by (elim andThen_Returned)
  from returns_run [OF this] have "info_claudeBranch info = None" by simp
  ultimately show ?thesis by simp
qed

lemma createNewBranch_outputs:
  assumes run: "createNewBranch env context s = (Returned info, s')"
  shows "\<exists>created. info_claudeBranch info = Some created
       \<and> filter isSetOutput (trace s') = filter isSetOutput (trace s)
           @ [SetOutput ''CLAUDE_BRANCH'' created,
              SetOutput ''BASE_BRANCH'' (info_baseBranch info)]"
proof -
  let ?own = "owner (repository context)" and ?rep = "repo (repository context)"
  let ?src = "if truthy (baseBranch (inputs context))
         then returns (stringOf (baseBranch (inputs context)))
         else external (ReposGet ?own ?rep) (repos_get env ?own ?rep)"
  from run obtain src s1 now s2 where
        1: "?src s = (Returned src, s1)"
    and 2: "readNewDate env s1 = (Returned now, s2)"
    and 3: "tryCatch
        (andThen
           (external (GitGetRef ?own ?rep (''heads/'' @ src))
              (git_getRef env ?own ?rep (''heads/'' @ src))) (\<lambda>currentSHA.
         if useCommitSigning (inputs context)
         then
           andThen (core_setOutput ''CLAUDE_BRANCH'' (newBranch (branchPrefix (inputs context)) (isPR context)
                      (entityNumber context) now)) (\<lambda>_.
           andThen (core_setOutput ''BASE_BRANCH'' src) (\<lambda>_.
           returns \<lparr>info_baseBranch = src,
                    info_claudeBranch = Some (newBranch (branchPrefix (inputs context)) (isPR context)
                      (entityNumber context) now),
                    info_currentBranch = src\<rparr>))
         else
           andThen (sh env [''git'', ''checkout'', ''-b'', newBranch (branchPrefix (inputs context)) (isPR context)
                      (entityNumber context) now]) (\<lambda>_.
           andThen (withTokenRefresh env (sh env [''git'', ''push'', ''-u'', ''origin'', newBranch (branchPrefix (inputs context)) (isPR context)
                      (entityNumber context) now])
                      context None) (\<lambda>_.
           andThen (core_setOutput ''CLAUDE_BRANCH'' (newBranch (branchPrefix (inputs context)) (isPR context)
                      (entityNumber context) now)) (\<lambda>_.
           andThen (core_setOutput ''BASE_BRANCH'' src) (\<lambda>_.
           returns \<lparr>info_baseBranch = src,
                    info_claudeBranch = Some (newBranch (branchPrefix (inputs context)) (isPR context)
                      (entityNumber context) now),
                    info_currentBranch = newBranch (branchPrefix (inputs context)) (isPR context)
                      (entityNumber context) now\<rparr>))))))
        (\<lambda>error. processExit 1) s2 = (Returned info, s')"
      (is "tryCatch ?body _ _ = _")
    unfolding createNewBranch_def Let_def by (elim andThen_Returned)
  let ?created = "newBranch (branchPrefix (inputs context)) (isPR context)
                      (entityNumber context) now"
  have "appendsOnly {ev. \<not> isSetOutput ev} ?src"
    by (intro appendsOnly_intros; simp)
  from outputs_preserved [OF this 1]
  have o1: "filter isSetOutput (trace s1) = filter isSetOutput (trace s)" .
  from 2 have o2: "s2 = s1" by (simp add: readNewDate_def)
  from tryCatch_Returned [OF 3] have body: "?body s2 = (Returned info, s')"
    by (auto simp: processExit_not_Returned)
  then obtain sha s3 where
        4: "external (GitGetRef ?own ?rep (''heads/'' @ src))
              (git_getRef env ?own ?rep (''heads/'' @ src)) s2 = (Returned sha, s3)"
    and 5: "(if useCommitSigning (inputs context)
         then
           andThen (core_setOutput ''CLAUDE_BRANCH'' ?created) (\<lambda>_.
           andThen (core_setOutput ''BASE_BRANCH'' src) (\<lambda>_.
           returns \<lparr>info_baseBranch = src,
                    info_claudeBranch = Some ?created,
                    info_currentBranch = src\<rparr>))
         else
           andThen (sh env [''git'', ''checkout'', ''-b'', ?created]) (\<lambda>_.
           andThen (withTokenRefresh env (sh env [''git'', ''push'', ''-u'', ''origin'', ?created])
                      context None) (\<lambda>_.
           andThen (core_setOutput ''CLAUDE_BRANCH'' ?created) (\<lambda>_.
           andThen (core_setOutput ''BASE_BRANCH'' src) (\<lambda>_.
           returns \<lparr>info_baseBranch = src,
                    info_claudeBranch = Some ?created,
                    info_currentBranch = ?created\<rparr>))))) s3 = (Returned info, s')"
    by (elim andThen_Returned)
  from external_Returned [OF 4] have o3: "filter isSetOutput (trace s3) = filter isSetOutput (trace s2)"
    by simp
  show ?thesis
  proof (cases "useCommitSigning (inputs context)")
    case True
    with 5 obtain u6 s6 u7 s7 where
          6: "core_setOutput ''CLAUDE_BRANCH'' ?created s3 = (Returned u6, s6)"
      and 7: "core_setOutput ''BASE_BRANCH'' src s6 = (Returned u7, s7)"
      and 8: "returns \<lparr>info_baseBranch = src, info_claudeBranch = Some ?created,
                    info_currentBranch = src\<rparr> s7 = (Returned info, s')"
      by (simp only: if_True) (elim andThen_Returned)
    from returns_run [OF 8] have "info = \<lparr>info_baseBranch = src, info_claudeBranch = Some ?created,
                    info_currentBranch = src\<rparr>" and "s' = s7" by simp_all
    with o1 o2 o3 setOutput_run [OF 6] setOutput_run [OF 7] show ?thesis by simp
  next
    case False
    with 5 obtain u4 s4 u5 s5 u6 s6 u7 s7 where
          c: "sh env [''git'', ''checkout'', ''-b'', ?created] s3 = (Returned u4, s4)"
      and p: "withTokenRefresh env (sh env [''git'', ''push'', ''-u'', ''origin'', ?created])
                context None s4 = (Returned u5, s5)"
      and 6: "core_setOutput ''CLAUDE_BRANCH'' ?created s5 = (Returned u6, s6)"
      and 7: "core_setOutput ''BASE_BRANCH'' src s6 = (Returned u7, s7)"
      and 8: "returns \<lparr>info_baseBranch = src, info_claudeBranch = Some ?created,
                    info_currentBranch = ?created\<rparr> s7 = (Returned info, s')"
      by (simp only: if_False) (elim andThen_Returned)
    from returns_run [OF 8] have "info = \<lparr>info_baseBranch = src, info_claudeBranch = Some ?created,
                    info_currentBranch = ?created\<rparr>" and "s' = s7" by simp_all
    with o1 o2 o3 sh_keeps_outputs [OF c] fetch_keeps_outputs [OF p]
      setOutput_run [OF 6] setOutput_run [OF 7] show ?thesis by simp
  qed
qed

text \<open>
  Claim C4, as amended. Whenever \<open>setupBranch\<close> returns, the named results it has set
  are: when the result has a \<open>claudeBranch\<close>, exactly \<open>CLAUDE_BRANCH\<close> with that branch
  followed by \<open>BASE_BRANCH\<close> with the result's \<open>baseBranch\<close>; when the result has no
  \<open>claudeBranch\<close> (the open pull request), none.
\<close>

theorem named_results_follow_agent_branch:
  assumes run: "setupBranch env githubData context w = (Returned info, s')"
  shows "filter isSetOutput (trace s') =
           (case info_claudeBranch info of
              None \<Rightarrow> []
            | Some agentBranch \<Rightarrow> [SetOutput ''CLAUDE_BRANCH'' agentBranch,
                                  SetOutput ''BASE_BRANCH'' (info_baseBranch info)])"
proof -
  let ?s0 = "\<lparr>world = w, trace = [], lastRefreshTime = dateNow env w\<rparr>"
  consider
      (provided) "useProvidedBranch env context (stringOf (branch (inputs context))) ?s0
                    = (Returned info, s')"
    | (openPR) "checkoutPRBranch env (contextData githubData) context ?s0 = (Returned info, s')"
    | (new) "createNewBranch env context ?s0 = (Returned info, s')"
    using run by (auto simp: setupBranch_def Let_def split: if_splits)
  then show ?thesis
  proof cases
    case provided
    from useProvidedBranch_outputs [OF this] show ?thesis by simp
  next
    case openPR
    from checkoutPRBranch_outputs [OF this] show ?thesis by simp
  next
    case new
    from createNewBranch_outputs [OF this] show ?thesis by auto
  qed
qed

text \<open>The provided branch \<open>dev\<close> in a repository whose default branch is \<open>main\<close>.\<close>

theorem named_results_follow_agent_branch_witness:
  "filter isSetOutput
     (trace (snd (setupBranch (lookupEnv (Inr ()) (Inr ''abc123'')) (openPullRequest 1)
                    (scriptedContext False (Some ''dev'') None ''claude-'' False) 0)))
     = [SetOutput ''CLAUDE_BRANCH'' ''dev'', SetOutput ''BASE_BRANCH'' ''main'']"
proof -
  let ?ctx = "scriptedContext False (Some ''dev'') None ''claude-'' False"
  let ?env = "lookupEnv (Inr ()) (Inr ''abc123'')"
  let ?run = "setupBranch ?env (openPullRequest 1) ?ctx 0"
  let ?info = "\<lparr>info_baseBranch = ''main'', info_claudeBranch = Some ''dev'',
                 info_currentBranch = ''dev''\<rparr>"
  have "fst ?run = Returned ?info" by code_simp
  then have run: "?run = (Returned ?info, snd ?run)"
    by (simp add: prod_eq_iff)
  from named_results_follow_agent_branch [OF run] show ?thesis by simp
qed

text \<open>
  Claim C4 as stated does not hold: for an open pull request \<open>setupBranch\<close> returns
  and no named result has been set, not even \<open>BASE_BRANCH\<close>.
\<close>

theorem open_pull_request_emits_nothing:
  "fst (setupBranch (lookupEnv (Inr ()) (Inr ''abc123'')) (openPullRequest 5)
          (scriptedContext True None None ''claude-'' False) 0)
     = Returned \<lparr>info_baseBranch = ''main'', info_claudeBranch = None,
                 info_currentBranch = ''feature''\<rparr>
   \<and> filter isSetOutput
       (trace (snd (setupBranch (lookupEnv (Inr ()) (Inr ''abc123'')) (openPullRequest 5)
                      (scriptedContext True None None ''claude-'' False) 0))) = []"
  by code_simp

subsection \<open>The generated branch name\<close>

lemma newBranch_pattern:
  "newBranch pfx pr number now =
     take 50 (toLowerCase (pfx @ (if pr then ''pr'' else ''issue'') @ ''-''
                           @ numberToString number @ ''-'' @ timestamp now))"
  by (simp add: newBranch_def substring_def branchName_def entityType_def)

lemma newBranch_length: "length (newBranch pfx pr number now) \<le> 50"
  by (simp add: newBranch_def substring_def)

text \<open>
  Lower-casing on the Latin-1 range: \<open>A\<close> and U+00C9 become \<open>a\<close> and U+00E9, the
  multiplication sign U+00D7 and the digit \<open>7\<close> stay, U+00DE becomes U+00FE.
\<close>

lemma toLowerCase_latin1_example:
  "toLowerCase [CHR ''A'', CHR 0xC9, CHR 0xD7, CHR ''7'', CHR 0xDE]
     = [CHR ''a'', CHR 0xE9, CHR 0xD7, CHR ''7'', CHR 0xFE]"
  by code_simp

lemma lowered_capital_code:
  assumes "isCapital (of_char c)"
  shows "(of_char (char_of ((of_char c :: nat) + 32)) :: nat) = of_char c + 32"
proof -
  from assms have "(of_char c :: nat) + 32 < 256"
    by (auto simp: isCapital_def)
  then show ?thesis by simp
qed

lemma lowered_capital_not_capital:
  assumes "isCapital n"
  shows "\<not> isCapital (n + 32)"
  using assms by (auto simp: isCapital_def)

lemma toLowerCaseChar_not_upper: "\<not> isUpperCase (toLowerCaseChar c)"
proof (cases "isCapital (of_char c)")
  case True
  with lowered_capital_code [OF True] lowered_capital_not_capital [OF True] show ?thesis
    by (simp add: isUpperCase_def toLowerCaseChar_def)
next
  case False
  then show ?thesis by (simp add: isUpperCase_def toLowerCaseChar_def)
qed

lemma newBranch_lower_case:
  assumes "c \<in> set (newBranch pfx pr number now)"
  shows "\<not> isUpperCase c"
proof -
  from assms have "c \<in> set (toLowerCase (branchName pfx (entityType pr) number (timestamp now)))"
    by (auto simp: newBranch_def substring_def dest: in_set_takeD)
  then show ?thesis
    by (auto simp: toLowerCase_def toLowerCaseChar_not_upper)
qed

lemma digitChar_code: "d < 10 \<Longrightarrow> (of_char (digitChar d) :: nat) = 48 + d"
  by (simp add: digitChar_def)

lemma digitChar_not_underscore: "d < 10 \<Longrightarrow> digitChar d \<noteq> CHR ''_''"
proof
  assume d: "d < 10" and eq: "digitChar d = CHR ''_''"
  from eq have "(of_char (digitChar d) :: nat) = of_char (CHR ''_'')" by simp
  with digitChar_code [OF d] have "48 + d = (95::nat)" by simp
  with d show False by simp
qed

lemma numberToString_no_underscore: "CHR ''_'' \<notin> set (numberToString n)"
proof (induction n rule: numberToString.induct)
  case (1 n)
  show ?case
  proof (cases "n < 10")
    case True
    then show ?thesis
      using digitChar_not_underscore [of n] by (subst numberToString.simps) auto
  next
    case False
    moreover have "n mod 10 < 10" by simp
    ultimately show ?thesis
      using 1 digitChar_not_underscore [of "n mod 10"]
      by (subst numberToString.simps) auto
  qed
qed

lemma padStart_no_underscore:
  "CHR ''_'' \<notin> set s \<Longrightarrow> CHR ''_'' \<notin> set (padStart s n (CHR ''0''))"
  by (auto simp: padStart_def)

lemma timestamp_no_underscore: "CHR ''_'' \<notin> set (timestamp now)"
  by (simp add: timestamp_def padStart_no_underscore numberToString_no_underscore)

lemma toLowerCaseChar_underscore: "toLowerCaseChar c = CHR ''_'' \<Longrightarrow> c = CHR ''_''"
proof (cases "isCapital (of_char c)")
  case True
  assume eq: "toLowerCaseChar c = CHR ''_''"
  from eq True have "char_of ((of_char c :: nat) + 32) = CHR ''_''"
    by (simp add: toLowerCaseChar_def)
  with lowered_capital_code [OF True] have "(of_char c :: nat) + 32 = 95" by simp
  with True show ?thesis by (simp add: isCapital_def)
next
  case False
  assume "toLowerCaseChar c = CHR ''_''"
  with False show ?thesis unfolding toLowerCaseChar_def by (simp only: if_False)
qed

lemma newBranch_underscore_from_prefix:
  assumes "CHR ''_'' \<in> set (newBranch pfx pr number now)"
  shows "CHR ''_'' \<in> set pfx"
proof -
  from assms have "CHR ''_'' \<in> set (toLowerCase (branchName pfx (entityType pr) number (timestamp now)))"
    by (auto simp: newBranch_def substring_def dest: in_set_takeD)
  then obtain c where c: "c \<in> set (branchName pfx (entityType pr) number (timestamp now))"
    and "toLowerCaseChar c = CHR ''_''"
    by (auto simp: toLowerCase_def)
  then have "c = CHR ''_''" by (simp add: toLowerCaseChar_underscore)
  with c have "CHR ''_'' \<in> set (branchName pfx (entityType pr) number (timestamp now))" by simp
  then show ?thesis
    using numberToString_no_underscore [of number] timestamp_no_underscore [of now]
    by (auto simp: branchName_def entityType_def split: if_splits)
qed

lemma newBranch_example:
  "newBranch ''claude-'' False 42 march15 = ''claude-issue-42-20240315-1430''"
  by code_simp

text \<open>
  Claim C2. The generated name is the lower-cased pattern cut to 50 characters and has no
  upper-case letter, and an underscore in it can only come from the prefix (the lemmas
  above). It is not always free of underscores: the prefix \<open>claude_\<close> keeps its
  underscore, although the comment of lines 159-163 lists "No underscores" for the branch
  name.
\<close>

theorem newBranch_keeps_prefix_underscore:
  "newBranch ''claude_'' False 42 march15 = ''claude_issue-42-20240315-1430''
   \<and> CHR ''_'' \<in> set (newBranch ''claude_'' False 42 march15)"
  by code_simp

section \<open>Commit and push\<close>

text \<open>
  Claim C9. When the context is parsed, the two \<open>git config\<close> commands succeed and
  \<open>git status --porcelain\<close> prints nothing but white space, \<open>run\<close> returns after
  setting \<open>committed\<close> to \<open>false\<close>; the calls made are exactly the parsing, the two
  configurations, the status query and that result, so nothing is staged, committed or
  pushed.
\<close>

theorem clean_tree_reports_not_committed:
  assumes "parseGitHubContext env w = (Inr context, w1)"
      and "shell env [''git'', ''config'', ''--global'', ''user.name'',
                      ''claude-code-action[bot]''] w1 = (Inr out1, w2)"
      and "shell env [''git'', ''config'', ''--global'', ''user.email'',
                      ''claude-code-action[bot]@users.noreply.github.com''] w2 = (Inr out2, w3)"
      and "shell env [''git'', ''status'', ''--porcelain''] w3 = (Inr gitStatus, w4)"
      and "trim gitStatus = []"
  shows "run env penv w =
           (Returned (),
            \<lparr>world = w4,
             trace = [ParseGitHubContext,
                      Shell [''git'', ''config'', ''--global'', ''user.name'',
                             ''claude-code-action[bot]''],
                      Shell [''git'', ''config'', ''--global'', ''user.email'',
                             ''claude-code-action[bot]@users.noreply.github.com''],
                      Shell [''git'', ''status'', ''--porcelain''],
                      SetOutput ''committed'' ''false''],
             lastRefreshTime = dateNow env w1\<rparr>)"
  using assms by (simp add: run_def Let_def action_defs)

text \<open>A clean tree: the status query prints a single newline.\<close>

theorem clean_tree_reports_not_committed_witness:
  "run cleanTreeEnv runnerEnv 0
     = (Returned (),
        \<lparr>world = 4,
         trace = [ParseGitHubContext,
                  Shell [''git'', ''config'', ''--global'', ''user.name'',
                         ''claude-code-action[bot]''],
                  Shell [''git'', ''config'', ''--global'', ''user.email'',
                         ''claude-code-action[bot]@users.noreply.github.com''],
                  Shell [''git'', ''status'', ''--porcelain''],
                  SetOutput ''committed'' ''false''],
         lastRefreshTime = 1000\<rparr>)"
proof -
  have 1: "parseGitHubContext cleanTreeEnv 0
             = (Inr (scriptedContext False None None ''claude-'' False), 1)"
    by code_simp
  have 2: "shell cleanTreeEnv [''git'', ''config'', ''--global'', ''user.name'',
                      ''claude-code-action[bot]''] 1 = (Inr ''done'', 2)"
    by code_simp
  have 3: "shell cleanTreeEnv [''git'', ''config'', ''--global'', ''user.email'',
                      ''claude-code-action[bot]@users.noreply.github.com''] 2 = (Inr ''done'', 3)"
    by code_simp
  have 4: "shell cleanTreeEnv [''git'', ''status'', ''--porcelain''] 3 = (Inr [CHR 0x0A], 4)"
    by code_simp
  have 5: "trim [CHR 0x0A] = []"
    by code_simp
  have now: "dateNow cleanTreeEnv 1 = 1000"
    by code_simp
  from clean_tree_reports_not_committed [OF 1 2 3 4 5, of runnerEnv] show ?thesis
    unfolding now .
qed

end
